theory Spec2Isabelle
  imports Main "HOL-Library.AList" "HOL-Library.Finite_Map" "HOL-Library.Multiset"
begin

section \<open>JavaScript values and objects\<close>

text \<open>
  The route handlers receive request bodies that are parsed JSON and hand them to the
  storage layer unchanged, so stored conversations, goals and notes are JavaScript objects
  whose fields hold arbitrary values. \<open>JDate t\<close> is a \<open>Date\<close> object with time value
  \<open>t\<close> (milliseconds); \<open>JNum\<close> carries integers only, numbers being used here solely
  through zero tests and comparison with zero. A string is a list of characters, each
  standing for one UTF-16 code unit, which is what \<open>length\<close> and \<open>substring\<close> count.
\<close>

datatype jsval =
    JUndefined
  | JNull
  | JBool bool
  | JNum int
  | JStr string
  | JDate int
  | JArr "jsval list"
  | JObj "(string, jsval) fmap"

type_synonym obj = "(string, jsval) fmap"

text \<open>Reading a property, \<open>o.k\<close>: an absent property reads as \<open>undefined\<close>.\<close>

definition get_field :: "obj \<Rightarrow> string \<Rightarrow> jsval" where
  "get_field ob k = (case fmlookup ob k of None \<Rightarrow> JUndefined | Some v \<Rightarrow> v)"

text \<open>Truthiness, as tested by \<open>!x\<close>, \<open>x || y\<close> and \<open>if (x)\<close>.\<close>

fun truthy :: "jsval \<Rightarrow> bool" where
  "truthy JUndefined = False"
| "truthy JNull = False"
| "truthy (JBool b) = b"
| "truthy (JNum n) = (n \<noteq> 0)"
| "truthy (JStr s) = (s \<noteq> [])"
| "truthy (JDate t) = True"
| "truthy (JArr xs) = True"
| "truthy (JObj ob) = True"

section \<open>The in-memory store (class MemStorage)\<close>

text \<open>
  A JavaScript \<open>Map\<close> keeps its entries in insertion order; \<open>set\<close> on a key that is
  present replaces the value in place, \<open>set\<close> on a new key appends.
\<close>

type_synonym 'v jsmap = "(string \<times> 'v) list"

definition map_get :: "'v jsmap \<Rightarrow> string \<Rightarrow> 'v option" where
  "map_get m k = map_of m k"

definition map_set :: "string \<Rightarrow> 'v \<Rightarrow> 'v jsmap \<Rightarrow> 'v jsmap" where
  "map_set k v m = AList.update k v m"

definition map_values :: "'v jsmap \<Rightarrow> 'v list" where
  "map_values m = map snd m"

definition map_keys :: "'v jsmap \<Rightarrow> string set" where
  "map_keys m = fst ` set m"

text \<open>
  Messages and activities are only ever built by the handlers from strings, so they are
  typed as the schema declares them. \<open>createdAt\<close> is the time value of the \<open>Date\<close>.
\<close>

record insert_message =
  im_conversationId :: string
  im_role :: string
  im_content :: string

record message =
  m_id :: string
  m_conversationId :: string
  m_role :: string
  m_content :: string
  m_createdAt :: int

record insert_activity =
  ia_type :: string
  ia_description :: string

record activity =
  a_id :: string
  a_type :: string
  a_description :: string
  a_createdAt :: int

record store =
  conversations :: "obj jsmap"
  messages :: "message jsmap"
  goals :: "obj jsmap"
  notes_map :: "obj jsmap"
  activities :: "activity jsmap"

text \<open>
  Every storage operation that calls \<open>randomUUID()\<close> or \<open>new Date()\<close> takes the value
  that call returns as an explicit argument (\<open>uuid\<close>, \<open>now\<close>), and the store it mutates
  as its last argument, returning the new store.
\<close>

definition getConversation :: "string \<Rightarrow> store \<Rightarrow> obj option" where
  "getConversation ident s = map_get (conversations s) ident"

definition createConversation :: "string \<Rightarrow> int \<Rightarrow> obj \<Rightarrow> store \<Rightarrow> obj \<times> store" where
  "createConversation uuid now insertConversation s =
     (let conversation =
            fmupd ''updatedAt'' (JDate now)
              (fmupd ''createdAt'' (JDate now)
                (fmupd ''id'' (JStr uuid) insertConversation))
      in (conversation, s\<lparr>conversations := map_set uuid conversation (conversations s)\<rparr>))"

text \<open>
  The three update operations share one shape: look the entity up, return \<open>undefined\<close>
  when it is absent, otherwise spread the stored entity, then the patch, then \<open>id\<close> and
  \<open>updatedAt\<close>.
\<close>

definition merge_patch :: "obj \<Rightarrow> obj \<Rightarrow> int \<Rightarrow> obj" where
  "merge_patch entity data now =
     fmupd ''updatedAt'' (JDate now)
       (fmupd ''id'' (get_field entity ''id'') (fmadd entity data))"

definition updateConversation ::
  "string \<Rightarrow> int \<Rightarrow> obj \<Rightarrow> store \<Rightarrow> obj option \<times> store" where
  "updateConversation ident now data s =
     (case map_get (conversations s) ident of
        None \<Rightarrow> (None, s)
      | Some conversation \<Rightarrow>
          (let updated = merge_patch conversation data now
           in (Some updated, s\<lparr>conversations := map_set ident updated (conversations s)\<rparr>)))"

text \<open>
  \<open>Array.prototype.sort\<close> is stable, and the comparator of \<open>getMessages\<close> orders
  two messages by the difference of their time values; \<open>sort_key\<close> is the stable sort
  by that key.
\<close>

definition getMessages :: "string \<Rightarrow> store \<Rightarrow> message list" where
  "getMessages conversationId s =
     sort_key m_createdAt
       (filter (\<lambda>m. m_conversationId m = conversationId) (map_values (messages s)))"

definition createMessage ::
  "string \<Rightarrow> int \<Rightarrow> insert_message \<Rightarrow> store \<Rightarrow> message \<times> store" where
  "createMessage uuid now insertMessage s =
     (let message = \<lparr>m_id = uuid,
                     m_conversationId = im_conversationId insertMessage,
                     m_role = im_role insertMessage,
                     m_content = im_content insertMessage,
                     m_createdAt = now\<rparr>
      in (message, s\<lparr>messages := map_set uuid message (messages s)\<rparr>))"

definition getGoal :: "string \<Rightarrow> store \<Rightarrow> obj option" where
  "getGoal ident s = map_get (goals s) ident"

definition updateGoal :: "string \<Rightarrow> int \<Rightarrow> obj \<Rightarrow> store \<Rightarrow> obj option \<times> store" where
  "updateGoal ident now data s =
     (case map_get (goals s) ident of
        None \<Rightarrow> (None, s)
      | Some goal \<Rightarrow>
          (let updated = merge_patch goal data now
           in (Some updated, s\<lparr>goals := map_set ident updated (goals s)\<rparr>)))"

definition getNote :: "string \<Rightarrow> store \<Rightarrow> obj option" where
  "getNote ident s = map_get (notes_map s) ident"

definition updateNote :: "string \<Rightarrow> int \<Rightarrow> obj \<Rightarrow> store \<Rightarrow> obj option \<times> store" where
  "updateNote ident now data s =
     (case map_get (notes_map s) ident of
        None \<Rightarrow> (None, s)
      | Some note \<Rightarrow>
          (let updated = merge_patch note data now
           in (Some updated, s\<lparr>notes_map := map_set ident updated (notes_map s)\<rparr>)))"

definition createActivity ::
  "string \<Rightarrow> int \<Rightarrow> insert_activity \<Rightarrow> store \<Rightarrow> activity \<times> store" where
  "createActivity uuid now insertActivity s =
     (let activity = \<lparr>a_id = uuid,
                      a_type = ia_type insertActivity,
                      a_description = ia_description insertActivity,
                      a_createdAt = now\<rparr>
      in (activity, s\<lparr>activities := map_set uuid activity (activities s)\<rparr>))"

definition empty_store :: store where
  "empty_store = \<lparr>conversations = [], messages = [], goals = [], notes_map = [], activities = []\<rparr>"

text \<open>A run of \<open>createMessage\<close> calls, each with the id and the time it drew.\<close>

fun createMessages :: "(string \<times> int \<times> insert_message) list \<Rightarrow> store \<Rightarrow> store" where
  "createMessages [] s = s"
| "createMessages ((uuid, now, im) # rest) s =
     createMessages rest (snd (createMessage uuid now im s))"

section \<open>The AI gateway (gemini.ts)\<close>

text \<open>
  The external provider is a parameter: a function from the request that
  \<open>ai.models.generateContent\<close> is given to what the call does, which is to throw or to
  answer with a response whose \<open>text\<close> may be undefined.
\<close>

datatype contents = Turns "(string \<times> string) list" | Prompt string

record gen_request =
  gr_model :: string
  gr_systemInstruction :: "string option"
  gr_jsonStringArray :: bool
  gr_contents :: contents

datatype provider_result = Throws | Response "string option"

type_synonym provider = "gen_request \<Rightarrow> provider_result"

definition newline :: string where
  "newline = [CHR 0x0A]"

definition systemPrompt :: string where
  "systemPrompt =
     ''You are AstraMind, an intelligent AI assistant and personal life operating system. You help users manage their life, learning, and creativity through natural conversation.''
     @ newline @ newline
     @ ''Your capabilities:'' @ newline
     @ ''- Help users plan their day and set goals'' @ newline
     @ ''- Provide learning support and explain complex topics'' @ newline
     @ ''- Offer productivity insights and suggestions'' @ newline
     @ ''- Be conversational, supportive, and personalized'' @ newline
     @ ''- Remember context from the conversation'' @ newline @ newline
     @ ''Respond naturally and helpfully. Keep responses concise but informative.''"

text \<open>\<open>x || d\<close> on a possibly undefined string: the default replaces undefined and the
  empty string.\<close>

definition text_or :: "string option \<Rightarrow> string \<Rightarrow> string" where
  "text_or t d = (case t of None \<Rightarrow> d | Some txt \<Rightarrow> if txt = [] then d else txt)"

text \<open>The result is \<open>Inl\<close> of the message of the \<open>Error\<close> thrown, or \<open>Inr\<close> of the
  string returned.\<close>

definition chatRequest :: "(string \<times> string) list \<Rightarrow> gen_request" where
  "chatRequest turns =
     \<lparr>gr_model = ''gemini-2.5-flash'',
      gr_systemInstruction = Some systemPrompt,
      gr_jsonStringArray = False,
      gr_contents = Turns turns\<rparr>"

definition chatWithAI :: "provider \<Rightarrow> string \<Rightarrow> (string \<times> string) list \<Rightarrow> string + string" where
  "chatWithAI ai message history =
     (let turns =
            map (\<lambda>(role, content). (if role = ''assistant'' then ''model'' else ''user'', content))
                history
            @ [(''user'', message)]
      in case ai (chatRequest turns) of
           Throws \<Rightarrow> Inl ''Failed to get AI response''
         | Response t \<Rightarrow>
             Inr (text_or t ''I'm sorry, I couldn't generate a response. Please try again.''))"

text \<open>
  What the model takes from the JavaScript runtime as given: the exponent notation in
  which a number of magnitude \<open>1e21\<close> or more is printed, the string a \<open>Date\<close> of
  a given time value converts to, and whether a string, converted to a number, is
  greater than zero.
\<close>

record runtime =
  exponent_form :: "int \<Rightarrow> string"
  date_string :: "int \<Rightarrow> string"
  positive_number :: "string \<Rightarrow> bool"

text \<open>An integer below \<open>1e21\<close> in magnitude is printed with all its decimal digits.\<close>

fun decimal :: "nat \<Rightarrow> string \<Rightarrow> string" where
  "decimal n acc =
     (if n div 10 = 0 then char_of (n mod 10 + 48) # acc
      else decimal (n div 10) (char_of (n mod 10 + 48) # acc))"

definition show_number :: "runtime \<Rightarrow> int \<Rightarrow> string" where
  "show_number rt i =
     (if \<bar>i\<bar> < 10 ^ 21
      then (if 0 \<le> i then decimal (nat i) [] else CHR ''-'' # decimal (nat (- i)) [])
      else exponent_form rt i)"

fun join_comma :: "string list \<Rightarrow> string" where
  "join_comma [] = []"
| "join_comma [x] = x"
| "join_comma (x # y # ys) = x @ '','' @ join_comma (y # ys)"

text \<open>
  The conversion to a string that a template literal and a comparison apply, \<open>None\<close>
  when it throws a TypeError. An object parsed from JSON has no callable property of
  its own, so an own \<open>toString\<close> property hides \<open>Object.prototype.toString\<close>, the
  inherited \<open>valueOf\<close> returns the object itself, and the conversion throws; without
  such a property the result is \<open>[object Object]\<close>. An array is joined with commas,
  \<open>null\<close> and \<open>undefined\<close> elements counting as empty strings.
\<close>

fun js_string :: "runtime \<Rightarrow> jsval \<Rightarrow> string option" where
  "js_string rt JUndefined = Some ''undefined''"
| "js_string rt JNull = Some ''null''"
| "js_string rt (JBool b) = Some (if b then ''true'' else ''false'')"
| "js_string rt (JNum n) = Some (show_number rt n)"
| "js_string rt (JStr str) = Some str"
| "js_string rt (JDate t) = Some (date_string rt t)"
| "js_string rt (JArr xs) =
     map_option join_comma
       (those (map (\<lambda>x. if x = JUndefined \<or> x = JNull then Some [] else js_string rt x) xs))"
| "js_string rt (JObj ob) =
     (if ''toString'' |\<in>| fmdom ob then None else Some ''[object Object]'')"

definition summaryPrompt :: "runtime \<Rightarrow> int \<Rightarrow> int \<Rightarrow> int \<Rightarrow> string" where
  \<open>summaryPrompt rt chats goals_n notes_n =
     ''Generate 3-4 brief, encouraging insights for a user's daily summary based on their activity:''
     @ newline
     @ ''- Chat conversations: '' @ show_number rt chats @ newline
     @ ''- Goals worked on: '' @ show_number rt goals_n @ newline
     @ ''- Notes created: '' @ show_number rt notes_n @ newline @ newline
     @ ''Provide insights as a JSON array of strings. Focus on productivity patterns, suggestions, and encouragement.''
     @ newline
     @ ''Example: ["Great engagement today with '' @ show_number rt chats
     @ '' conversations!", "Keep the momentum on your '' @ show_number rt goals_n
     @ '' goals", "Your '' @ show_number rt notes_n @ '' notes show active learning"]''\<close>

text \<open>
  \<open>v.length\<close>: reading a property of \<open>null\<close> or \<open>undefined\<close> throws a TypeError
  (\<open>None\<close>); arrays and strings have a length, an object may carry a property of that
  name, every other value reads \<open>undefined\<close>.
\<close>

fun js_length :: "jsval \<Rightarrow> jsval option" where
  "js_length JUndefined = None"
| "js_length JNull = None"
| "js_length (JArr xs) = Some (JNum (int (length xs)))"
| "js_length (JStr s) = Some (JNum (int (length s)))"
| "js_length (JObj ob) = Some (get_field ob ''length'')"
| "js_length v = Some JUndefined"

text \<open>
  \<open>v > 0\<close> converts \<open>v\<close> to a number first; \<open>None\<close> when the conversion throws.
  \<open>undefined\<close> and a plain object become NaN, which compares false; an object with
  an own \<open>toString\<close> property throws as above; an array is converted through its
  string.
\<close>

fun greater_zero :: "runtime \<Rightarrow> jsval \<Rightarrow> bool option" where
  "greater_zero rt JUndefined = Some False"
| "greater_zero rt JNull = Some False"
| "greater_zero rt (JBool b) = Some b"
| "greater_zero rt (JNum n) = Some (0 < n)"
| "greater_zero rt (JStr str) = Some (positive_number rt str)"
| "greater_zero rt (JDate t) = Some (0 < t)"
| "greater_zero rt (JArr xs) = map_option (positive_number rt) (js_string rt (JArr xs))"
| "greater_zero rt (JObj ob) = (if ''toString'' |\<in>| fmdom ob then None else Some False)"

definition fallback_empty :: jsval where
  "fallback_empty = JArr [JStr ''Keep up the great work!'', JStr ''Every step forward counts.'']"

definition fallback_catch :: jsval where
  "fallback_catch = JArr [JStr ''Keep building your momentum!'', JStr ''Great progress today.'']"

definition summaryRequest :: "runtime \<Rightarrow> int \<Rightarrow> int \<Rightarrow> int \<Rightarrow> gen_request" where
  "summaryRequest rt chats goals_n notes_n =
     \<lparr>gr_model = ''gemini-2.5-flash'',
      gr_systemInstruction = None,
      gr_jsonStringArray = True,
      gr_contents = Prompt (summaryPrompt rt chats goals_n notes_n)\<rparr>"

text \<open>
  The body of the \<open>try\<close> block of \<open>generateDailySummary\<close>: \<open>Inl ()\<close> when something in
  it throws (the provider call, \<open>JSON.parse\<close>, reading \<open>length\<close>, the comparison).
  \<open>JSON.parse\<close> is
  the parameter \<open>json_parse\<close>, \<open>None\<close> being its SyntaxError.
\<close>

definition generateDailySummary_try ::
  "provider \<Rightarrow> (string \<Rightarrow> jsval option) \<Rightarrow> runtime \<Rightarrow> int \<Rightarrow> int \<Rightarrow> int \<Rightarrow> unit + jsval" where
  "generateDailySummary_try ai json_parse rt chats goals_n notes_n =
     (case ai (summaryRequest rt chats goals_n notes_n) of
        Throws \<Rightarrow> Inl ()
      | Response t \<Rightarrow>
          (case json_parse (text_or t ''[]'') of
             None \<Rightarrow> Inl ()
           | Some insights \<Rightarrow>
               (case js_length insights of
                  None \<Rightarrow> Inl ()
                | Some len \<Rightarrow>
                    (case greater_zero rt len of
                       None \<Rightarrow> Inl ()
                     | Some positive \<Rightarrow>
                         Inr (if positive then insights else fallback_empty)))))"

text \<open>The whole function: \<open>Inl\<close> would be an error reaching the caller.\<close>

definition generateDailySummary ::
  "provider \<Rightarrow> (string \<Rightarrow> jsval option) \<Rightarrow> runtime \<Rightarrow> int \<Rightarrow> int \<Rightarrow> int \<Rightarrow> string + jsval" where
  "generateDailySummary ai json_parse rt chats goals_n notes_n =
     (case generateDailySummary_try ai json_parse rt chats goals_n notes_n of
        Inl _ \<Rightarrow> Inr fallback_catch
      | Inr v \<Rightarrow> Inr v)"

section \<open>The request handlers (registerRoutes)\<close>

text \<open>
  A handler answers either with \<open>res.json(x)\<close> or with
  \<open>res.status(code).json({ error })\<close>. The request body is the object the JSON body
  parser delivers.
\<close>

datatype 'a response = Json 'a | Error nat string

record chat_response =
  cr_message :: message
  cr_conversationId :: string

text \<open>
  The values one run of the chat handler draws from \<open>randomUUID()\<close> and
  \<open>new Date()\<close>, in the order of the calls: in \<open>createConversation\<close>, in the two
  \<open>createMessage\<close> calls, in the patch handed to \<open>updateConversation\<close> and in
  \<open>updateConversation\<close> itself, and in \<open>createActivity\<close>.
\<close>

record chat_env =
  conv_uuid :: string
  conv_now :: int
  user_uuid :: string
  user_now :: int
  reply_uuid :: string
  reply_now :: int
  patch_now :: int
  touch_now :: int
  act_uuid :: string
  act_now :: int

text \<open>\<open>message.substring(0, 50) + (message.length > 50 ? "..." : "")\<close>\<close>

definition conversationTitle :: "string \<Rightarrow> string" where
  "conversationTitle message = take 50 message @ (if length message > 50 then ''...'' else [])"

text \<open>
  The block "Create or get conversation". It yields the response that ends the request,
  or the conversation id to go on with and the store. The keys of the map are strings,
  so a truthy \<open>conversationId\<close> that is not a string finds nothing. In the first branch
  the id returned is \<open>conversation.id\<close>, which is the id \<open>createConversation\<close> has
  just stamped.
\<close>

definition createOrGetConversation ::
  "chat_env \<Rightarrow> string \<Rightarrow> jsval \<Rightarrow> store \<Rightarrow> chat_response response + (string \<times> store)" where
  "createOrGetConversation env message conversationId s =
     (if \<not> truthy conversationId then
        (let title = conversationTitle message;
             (conversation, s1) =
                createConversation (conv_uuid env) (conv_now env)
                  (fmupd ''title'' (JStr title) fmempty) s
         in Inr (conv_uuid env, s1))
      else
        (case conversationId of
           JStr convId \<Rightarrow>
             (case getConversation convId s of
                None \<Rightarrow> Inl (Error 404 ''Conversation not found'')
              | Some conversation \<Rightarrow> Inr (convId, s))
         | _ \<Rightarrow> Inl (Error 404 ''Conversation not found'')))"

definition conversationHistory :: "message \<Rightarrow> message list \<Rightarrow> (string \<times> string) list" where
  "conversationHistory userMessage msgs =
     map (\<lambda>m. (m_role m, m_content m)) (filter (\<lambda>m. m_id m \<noteq> m_id userMessage) msgs)"

definition chatDescription :: "string \<Rightarrow> string" where
  "chatDescription message =
     ''Had a conversation about: '' @ take 60 message
       @ (if length message > 60 then ''...'' else [])"

text \<open>POST /api/chat. An exception inside the handler is caught and answered with 500.\<close>

definition chat :: "provider \<Rightarrow> chat_env \<Rightarrow> obj \<Rightarrow> store \<Rightarrow> chat_response response \<times> store" where
  "chat ai env body s =
     (case get_field body ''message'' of
        JStr message \<Rightarrow>
          (if message = [] then (Error 400 ''Message is required'', s)
           else
             (case createOrGetConversation env message (get_field body ''conversationId'') s of
                Inl answer \<Rightarrow> (answer, s)
              | Inr (convId, s1) \<Rightarrow>
                  (let (userMessage, s2) =
                         createMessage (user_uuid env) (user_now env)
                           \<lparr>im_conversationId = convId, im_role = ''user'',
                            im_content = message\<rparr> s1;
                       history = conversationHistory userMessage (getMessages convId s2)
                   in case chatWithAI ai message history of
                        Inl err \<Rightarrow> (Error 500 ''Failed to process chat message'', s2)
                      | Inr aiResponse \<Rightarrow>
                          (let (aiMessage, s3) =
                                 createMessage (reply_uuid env) (reply_now env)
                                   \<lparr>im_conversationId = convId, im_role = ''assistant'',
                                    im_content = aiResponse\<rparr> s2;
                               (touched, s4) =
                                 updateConversation convId (touch_now env)
                                   (fmupd ''updatedAt'' (JDate (patch_now env)) fmempty) s3;
                               (logged, s5) =
                                 createActivity (act_uuid env) (act_now env)
                                   \<lparr>ia_type = ''chat'',
                                    ia_description = chatDescription message\<rparr> s4
                           in (Json \<lparr>cr_message = aiMessage, cr_conversationId = convId\<rparr>,
                               s5)))))
      | _ \<Rightarrow> (Error 400 ''Message is required'', s))"

text \<open>
  PATCH /api/goals/:id, with the values drawn by \<open>updateGoal\<close> (\<open>now\<close>) and by
  \<open>createActivity\<close> (\<open>uuid\<close>, \<open>logged_at\<close>). The description of the activity is a
  template literal over \<open>goal.title\<close>, evaluated after \<open>updateGoal\<close> has stored the
  goal; when the conversion of the title throws, the \<open>catch\<close> block answers 500.
\<close>

definition patchGoal ::
  "runtime \<Rightarrow> int \<Rightarrow> string \<Rightarrow> int \<Rightarrow> string \<Rightarrow> obj \<Rightarrow> store \<Rightarrow> obj response \<times> store" where
  "patchGoal rt now uuid logged_at ident body s =
     (case getGoal ident s of
        None \<Rightarrow> (Error 404 ''Goal not found'', s)
      | Some existingGoal \<Rightarrow>
          (case updateGoal ident now body s of
             (None, s1) \<Rightarrow> (Error 404 ''Goal not found'', s1)
           | (Some goal, s1) \<Rightarrow>
               (case js_string rt (get_field goal ''title'') of
                  None \<Rightarrow> (Error 500 ''Failed to update goal'', s1)
                | Some title \<Rightarrow>
                    (let entry =
                           (if get_field body ''completed'' = JBool True
                               \<and> \<not> truthy (get_field existingGoal ''completed'')
                            then \<lparr>ia_type = ''goal_completed'',
                                  ia_description = ''Completed goal: '' @ title\<rparr>
                            else \<lparr>ia_type = ''goal_updated'',
                                  ia_description = ''Updated goal: '' @ title\<rparr>);
                         (logged, s2) = createActivity uuid logged_at entry s1
                     in (Json goal, s2)))))"

text \<open>PATCH /api/notes/:id, likewise.\<close>

definition patchNote ::
  "runtime \<Rightarrow> int \<Rightarrow> string \<Rightarrow> int \<Rightarrow> string \<Rightarrow> obj \<Rightarrow> store \<Rightarrow> obj response \<times> store" where
  "patchNote rt now uuid logged_at ident body s =
     (case updateNote ident now body s of
        (None, s1) \<Rightarrow> (Error 404 ''Note not found'', s1)
      | (Some note, s1) \<Rightarrow>
          (case js_string rt (get_field note ''title'') of
             None \<Rightarrow> (Error 500 ''Failed to update note'', s1)
           | Some title \<Rightarrow>
               (let (logged, s2) =
                      createActivity uuid logged_at
                        \<lparr>ia_type = ''note_updated'',
                         ia_description = ''Updated note: '' @ title\<rparr> s1
                in (Json note, s2))))"

section \<open>The insert schemas (shared/schema.ts)\<close>

text \<open>
  What \<open>insertGoalSchema\<close> and \<open>insertNoteSchema\<close> accept, read off the table
  declarations: a \<open>notNull\<close> text column without default is a required string, a column
  with a default is optional, a nullable column is optional and may be null; a timestamp
  is a \<open>Date\<close>.
\<close>

fun is_string :: "jsval \<Rightarrow> bool" where
  "is_string (JStr str) = True"
| "is_string v = False"

fun optional_nullable_string :: "jsval \<Rightarrow> bool" where
  "optional_nullable_string JUndefined = True"
| "optional_nullable_string JNull = True"
| "optional_nullable_string v = is_string v"

fun optional_integer :: "jsval \<Rightarrow> bool" where
  "optional_integer JUndefined = True"
| "optional_integer (JNum n) = True"
| "optional_integer v = False"

fun optional_boolean :: "jsval \<Rightarrow> bool" where
  "optional_boolean JUndefined = True"
| "optional_boolean (JBool b) = True"
| "optional_boolean v = False"

fun optional_nullable_date :: "jsval \<Rightarrow> bool" where
  "optional_nullable_date JUndefined = True"
| "optional_nullable_date JNull = True"
| "optional_nullable_date (JDate t) = True"
| "optional_nullable_date v = False"

fun optional_nullable_strings :: "jsval \<Rightarrow> bool" where
  "optional_nullable_strings JUndefined = True"
| "optional_nullable_strings JNull = True"
| "optional_nullable_strings (JArr xs) = list_all is_string xs"
| "optional_nullable_strings v = False"

fun optional_string :: "jsval \<Rightarrow> bool" where
  "optional_string JUndefined = True"
| "optional_string v = is_string v"

fun optional_date :: "jsval \<Rightarrow> bool" where
  "optional_date JUndefined = True"
| "optional_date (JDate t) = True"
| "optional_date v = False"

definition insertGoalSchema :: "obj \<Rightarrow> bool" where
  "insertGoalSchema body =
     (is_string (get_field body ''title'')
      \<and> optional_nullable_string (get_field body ''description'')
      \<and> is_string (get_field body ''category'')
      \<and> optional_integer (get_field body ''progress'')
      \<and> optional_nullable_date (get_field body ''targetDate'')
      \<and> optional_boolean (get_field body ''completed''))"

definition insertNoteSchema :: "obj \<Rightarrow> bool" where
  "insertNoteSchema body =
     (is_string (get_field body ''title'')
      \<and> is_string (get_field body ''content'')
      \<and> optional_nullable_strings (get_field body ''tags''))"

text \<open>
  The declared type of the patch of \<open>updateGoal\<close> and \<open>updateNote\<close>,
  \<open>Partial<Goal>\<close> and \<open>Partial<Note>\<close>: every field of the row type, each optional.
\<close>

definition partialGoal :: "obj \<Rightarrow> bool" where
  "partialGoal body =
     (optional_string (get_field body ''id'')
      \<and> optional_string (get_field body ''title'')
      \<and> optional_nullable_string (get_field body ''description'')
      \<and> optional_string (get_field body ''category'')
      \<and> optional_integer (get_field body ''progress'')
      \<and> optional_nullable_date (get_field body ''targetDate'')
      \<and> optional_boolean (get_field body ''completed'')
      \<and> optional_date (get_field body ''createdAt'')
      \<and> optional_date (get_field body ''updatedAt''))"

definition partialNote :: "obj \<Rightarrow> bool" where
  "partialNote body =
     (optional_string (get_field body ''id'')
      \<and> optional_string (get_field body ''title'')
      \<and> optional_string (get_field body ''content'')
      \<and> optional_nullable_strings (get_field body ''tags'')
      \<and> optional_date (get_field body ''createdAt'')
      \<and> optional_date (get_field body ''updatedAt''))"

section \<open>Sample data\<close>

definition sample_entity :: obj where
  "sample_entity =
     fmupd ''title'' (JStr ''Learn X'')
       (fmupd ''completed'' (JBool False)
         (fmupd ''id'' (JStr ''e1'')
           (fmupd ''createdAt'' (JDate 5)
             (fmupd ''updatedAt'' (JDate 5) fmempty))))"

definition sample_store :: store where
  "sample_store =
     \<lparr>conversations = [(''e1'', sample_entity)],
      messages = [],
      goals = [(''e1'', sample_entity)],
      notes_map = [(''e1'', sample_entity)],
      activities = []\<rparr>"

definition sample_patch :: obj where
  "sample_patch =
     fmupd ''id'' (JStr ''other'')
       (fmupd ''updatedAt'' (JDate 1)
         (fmupd ''createdAt'' (JStr ''2001-01-01'') fmempty))"

definition sample_inserts :: "(string \<times> int \<times> insert_message) list" where
  "sample_inserts =
     [(''m1'', 30, \<lparr>im_conversationId = ''a'', im_role = ''user'', im_content = ''one''\<rparr>),
      (''m2'', 10, \<lparr>im_conversationId = ''b'', im_role = ''user'', im_content = ''two''\<rparr>),
      (''m3'', 20, \<lparr>im_conversationId = ''a'', im_role = ''user'', im_content = ''three''\<rparr>)]"

definition throwing_provider :: provider where
  "throwing_provider req = Throws"

definition empty_list_provider :: provider where
  "empty_list_provider req = Response (Some ''[]'')"

definition sample_parse :: "string \<Rightarrow> jsval option" where
  "sample_parse txt = (if txt = ''[]'' then Some (JArr []) else None)"

definition sample_runtime :: runtime where
  "sample_runtime =
     \<lparr>exponent_form = (\<lambda>i. ''1e+21''),
      date_string = (\<lambda>t. ''Thu Jan 01 1970''),
      positive_number = (\<lambda>str. str = ''1'')\<rparr>"

definition sample_env :: chat_env where
  "sample_env =
     \<lparr>conv_uuid = ''c-new'', conv_now = 100, user_uuid = ''u1'', user_now = 101,
      reply_uuid = ''r1'', reply_now = 102, patch_now = 103, touch_now = 104,
      act_uuid = ''a1'', act_now = 105\<rparr>"

definition reply_provider :: provider where
  "reply_provider req = Response (Some ''Sure.'')"

definition sample_chat_body :: obj where
  "sample_chat_body = fmupd ''message'' (JStr ''hello'') fmempty"

definition sample_long_message :: string where
  "sample_long_message = ''Please help me plan a study schedule for learning Isabelle this month!''"

definition sample_long_body :: obj where
  "sample_long_body = fmupd ''message'' (JStr sample_long_message) fmempty"

definition sample_followup_body :: obj where
  "sample_followup_body =
     fmupd ''conversationId'' (JStr ''e1'') (fmupd ''message'' (JStr ''hello'') fmempty)"

definition sample_unknown_body :: obj where
  "sample_unknown_body =
     fmupd ''conversationId'' (JStr ''nope'') (fmupd ''message'' (JStr ''hello'') fmempty)"

definition sample_no_message_body :: obj where
  "sample_no_message_body =
     fmupd ''conversationId'' (JStr ''nope'') (fmupd ''message'' (JStr []) fmempty)"

definition sample_blank_id_body :: obj where
  "sample_blank_id_body =
     fmupd ''conversationId'' (JStr []) (fmupd ''message'' (JStr ''hello'') fmempty)"

definition bad_note_patch :: obj where
  "bad_note_patch = fmupd ''content'' (JNum 42) fmempty"

definition bad_goal_patch :: obj where
  "bad_goal_patch = fmupd ''progress'' (JStr ''lots'') fmempty"

definition unprintable_title_patch :: obj where
  "unprintable_title_patch =
     fmupd ''title'' (JObj (fmupd ''toString'' (JNum 1) fmempty))
       (fmupd ''completed'' (JBool True) fmempty)"

definition null_completed_goal :: obj where
  "null_completed_goal = fmupd ''completed'' JNull sample_entity"

definition null_completed_store :: store where
  "null_completed_store = sample_store\<lparr>goals := [(''e1'', null_completed_goal)]\<rparr>"

definition completing_only_patch :: obj where
  "completing_only_patch = fmupd ''completed'' (JBool True) fmempty"

definition completing_patch :: obj where
  "completing_patch = fmupd ''completed'' (JBool True) (fmupd ''progress'' (JNum 100) fmempty)"

section \<open>Facts about the map and the merge\<close>

lemma map_get_set: "map_get (map_set k v m) k' = (if k' = k then Some v else map_get m k')"
  by (simp add: map_get_def map_set_def update_conv')

lemma map_set_fresh: "k \<notin> map_keys m \<Longrightarrow> map_set k v m = m @ [(k, v)]"
  unfolding map_keys_def map_set_def by (induction m) auto

lemma map_keys_set: "map_keys (map_set k v m) = insert k (map_keys m)"
  unfolding map_keys_def map_set_def by (simp add: dom_update)

lemma get_field_merge_patch:
  "get_field (merge_patch e d now) k =
     (if k = ''updatedAt'' then JDate now
      else if k = ''id'' then get_field e ''id''
      else if k |\<in>| fmdom d then get_field d k else get_field e k)"
  by (simp add: get_field_def merge_patch_def)

lemma merge_patch_fields:
  "get_field (merge_patch e d now) ''id'' = get_field e ''id''"
  "get_field (merge_patch e d now) ''updatedAt'' = JDate now"
  "fmlookup d ''createdAt'' = Some v \<Longrightarrow> get_field (merge_patch e d now) ''createdAt'' = v"
  by (auto simp add: merge_patch_def get_field_def fmdomI)

lemma updateConversation_found:
  "getConversation i s = Some e \<Longrightarrow>
     updateConversation i now d s =
       (Some (merge_patch e d now),
        s\<lparr>conversations := map_set i (merge_patch e d now) (conversations s)\<rparr>)"
  by (simp add: updateConversation_def getConversation_def Let_def)

lemma updateGoal_found:
  "getGoal i s = Some e \<Longrightarrow>
     updateGoal i now d s =
       (Some (merge_patch e d now), s\<lparr>goals := map_set i (merge_patch e d now) (goals s)\<rparr>)"
  by (simp add: updateGoal_def getGoal_def Let_def)

lemma updateNote_found:
  "getNote i s = Some e \<Longrightarrow>
     updateNote i now d s =
       (Some (merge_patch e d now),
        s\<lparr>notes_map := map_set i (merge_patch e d now) (notes_map s)\<rparr>)"
  by (simp add: updateNote_def getNote_def Let_def)

lemma sample_lookups:
  "getConversation ''e1'' sample_store = Some sample_entity"
  "getGoal ''e1'' sample_store = Some sample_entity"
  "getNote ''e1'' sample_store = Some sample_entity"
  by (simp_all add: getConversation_def getGoal_def getNote_def map_get_def sample_store_def)

section \<open>Update with an empty patch\<close>

text \<open>
  Claim C9. For each of the three update operations (conversation, goal, note) and every
  stored entity \<open>e\<close>, updating with the empty patch returns an entity \<open>u\<close>, stores it
  under the same key, sets its \<open>updatedAt\<close> to the current time, and leaves every other
  field reading as it did in \<open>e\<close>.
\<close>

theorem empty_patch_update:
  "(getConversation i s = Some e \<longrightarrow>
      (\<exists>u. fst (updateConversation i now fmempty s) = Some u
         \<and> getConversation i (snd (updateConversation i now fmempty s)) = Some u
         \<and> get_field u ''updatedAt'' = JDate now
         \<and> (\<forall>k. k \<noteq> ''updatedAt'' \<longrightarrow> get_field u k = get_field e k)))
   \<and> (getGoal i s = Some e \<longrightarrow>
      (\<exists>u. fst (updateGoal i now fmempty s) = Some u
         \<and> getGoal i (snd (updateGoal i now fmempty s)) = Some u
         \<and> get_field u ''updatedAt'' = JDate now
         \<and> (\<forall>k. k \<noteq> ''updatedAt'' \<longrightarrow> get_field u k = get_field e k)))
   \<and> (getNote i s = Some e \<longrightarrow>
      (\<exists>u. fst (updateNote i now fmempty s) = Some u
         \<and> getNote i (snd (updateNote i now fmempty s)) = Some u
         \<and> get_field u ''updatedAt'' = JDate now
         \<and> (\<forall>k. k \<noteq> ''updatedAt'' \<longrightarrow> get_field u k = get_field e k)))"
proof (intro conjI impI)
  assume a: "getConversation i s = Some e"
  show "\<exists>u. fst (updateConversation i now fmempty s) = Some u
         \<and> getConversation i (snd (updateConversation i now fmempty s)) = Some u
         \<and> get_field u ''updatedAt'' = JDate now
         \<and> (\<forall>k. k \<noteq> ''updatedAt'' \<longrightarrow> get_field u k = get_field e k)"
    by (rule exI [of _ "merge_patch e fmempty now"])
       (simp add: updateConversation_found [OF a] getConversation_def map_get_set
          get_field_merge_patch)
next
  assume a: "getGoal i s = Some e"
  show "\<exists>u. fst (updateGoal i now fmempty s) = Some u
         \<and> getGoal i (snd (updateGoal i now fmempty s)) = Some u
         \<and> get_field u ''updatedAt'' = JDate now
         \<and> (\<forall>k. k \<noteq> ''updatedAt'' \<longrightarrow> get_field u k = get_field e k)"
    by (rule exI [of _ "merge_patch e fmempty now"])
       (simp add: updateGoal_found [OF a] getGoal_def map_get_set get_field_merge_patch)
next
  assume a: "getNote i s = Some e"
  show "\<exists>u. fst (updateNote i now fmempty s) = Some u
         \<and> getNote i (snd (updateNote i now fmempty s)) = Some u
         \<and> get_field u ''updatedAt'' = JDate now
         \<and> (\<forall>k. k \<noteq> ''updatedAt'' \<longrightarrow> get_field u k = get_field e k)"
    by (rule exI [of _ "merge_patch e fmempty now"])
       (simp add: updateNote_found [OF a] getNote_def map_get_set get_field_merge_patch)
qed

theorem empty_patch_update_witness:
  "getConversation ''e1'' sample_store = Some sample_entity
   \<and> getGoal ''e1'' sample_store = Some sample_entity
   \<and> getNote ''e1'' sample_store = Some sample_entity
   \<and> (\<exists>u. fst (updateConversation ''e1'' 9 fmempty sample_store) = Some u
         \<and> get_field u ''updatedAt'' = JDate 9
         \<and> (\<forall>k. k \<noteq> ''updatedAt'' \<longrightarrow> get_field u k = get_field sample_entity k))
   \<and> (\<exists>u. fst (updateGoal ''e1'' 9 fmempty sample_store) = Some u
         \<and> get_field u ''updatedAt'' = JDate 9
         \<and> (\<forall>k. k \<noteq> ''updatedAt'' \<longrightarrow> get_field u k = get_field sample_entity k))
   \<and> (\<exists>u. fst (updateNote ''e1'' 9 fmempty sample_store) = Some u
         \<and> get_field u ''updatedAt'' = JDate 9
         \<and> (\<forall>k. k \<noteq> ''updatedAt'' \<longrightarrow> get_field u k = get_field sample_entity k))"
  using empty_patch_update [of "''e1''" sample_store sample_entity 9] sample_lookups
  by blast

section \<open>What a patch can and cannot overwrite\<close>

text \<open>
  Claim C10. For each update operation, every stored entity \<open>e\<close> and every patch \<open>d\<close>:
  the updated entity keeps the \<open>id\<close> of \<open>e\<close> and has \<open>updatedAt\<close> equal to the current
  time, whatever \<open>d\<close> holds for these two fields; a \<open>createdAt\<close> in \<open>d\<close> replaces the
  stored one.
\<close>

theorem update_keeps_id_and_stamp:
  "(getConversation i s = Some e \<longrightarrow>
      (\<exists>u. fst (updateConversation i now d s) = Some u
         \<and> getConversation i (snd (updateConversation i now d s)) = Some u
         \<and> get_field u ''id'' = get_field e ''id''
         \<and> get_field u ''updatedAt'' = JDate now
         \<and> (\<forall>v. fmlookup d ''createdAt'' = Some v \<longrightarrow> get_field u ''createdAt'' = v)))
   \<and> (getGoal i s = Some e \<longrightarrow>
      (\<exists>u. fst (updateGoal i now d s) = Some u
         \<and> getGoal i (snd (updateGoal i now d s)) = Some u
         \<and> get_field u ''id'' = get_field e ''id''
         \<and> get_field u ''updatedAt'' = JDate now
         \<and> (\<forall>v. fmlookup d ''createdAt'' = Some v \<longrightarrow> get_field u ''createdAt'' = v)))
   \<and> (getNote i s = Some e \<longrightarrow>
      (\<exists>u. fst (updateNote i now d s) = Some u
         \<and> getNote i (snd (updateNote i now d s)) = Some u
         \<and> get_field u ''id'' = get_field e ''id''
         \<and> get_field u ''updatedAt'' = JDate now
         \<and> (\<forall>v. fmlookup d ''createdAt'' = Some v \<longrightarrow> get_field u ''createdAt'' = v)))"
proof (intro conjI impI)
  assume a: "getConversation i s = Some e"
  show "\<exists>u. fst (updateConversation i now d s) = Some u
         \<and> getConversation i (snd (updateConversation i now d s)) = Some u
         \<and> get_field u ''id'' = get_field e ''id''
         \<and> get_field u ''updatedAt'' = JDate now
         \<and> (\<forall>v. fmlookup d ''createdAt'' = Some v \<longrightarrow> get_field u ''createdAt'' = v)"
    by (rule exI [of _ "merge_patch e d now"])
       (simp add: updateConversation_found [OF a] getConversation_def map_get_set
          merge_patch_fields)
next
  assume a: "getGoal i s = Some e"
  show "\<exists>u. fst (updateGoal i now d s) = Some u
         \<and> getGoal i (snd (updateGoal i now d s)) = Some u
         \<and> get_field u ''id'' = get_field e ''id''
         \<and> get_field u ''updatedAt'' = JDate now
         \<and> (\<forall>v. fmlookup d ''createdAt'' = Some v \<longrightarrow> get_field u ''createdAt'' = v)"
    by (rule exI [of _ "merge_patch e d now"])
       (simp add: updateGoal_found [OF a] getGoal_def map_get_set merge_patch_fields)
next
  assume a: "getNote i s = Some e"
  show "\<exists>u. fst (updateNote i now d s) = Some u
         \<and> getNote i (snd (updateNote i now d s)) = Some u
         \<and> get_field u ''id'' = get_field e ''id''
         \<and> get_field u ''updatedAt'' = JDate now
         \<and> (\<forall>v. fmlookup d ''createdAt'' = Some v \<longrightarrow> get_field u ''createdAt'' = v)"
    by (rule exI [of _ "merge_patch e d now"])
       (simp add: updateNote_found [OF a] getNote_def map_get_set merge_patch_fields)
qed

lemma sample_fields:
  "get_field sample_entity ''id'' = JStr ''e1''"
  "fmlookup sample_patch ''createdAt'' = Some (JStr ''2001-01-01'')"
  "get_field sample_patch ''id'' = JStr ''other''"
  "get_field sample_patch ''updatedAt'' = JDate 1"
  by (simp_all add: sample_entity_def sample_patch_def get_field_def)

theorem update_keeps_id_and_stamp_witness:
  "getConversation ''e1'' sample_store = Some sample_entity
   \<and> getGoal ''e1'' sample_store = Some sample_entity
   \<and> getNote ''e1'' sample_store = Some sample_entity
   \<and> get_field sample_patch ''id'' = JStr ''other''
   \<and> get_field sample_patch ''updatedAt'' = JDate 1
   \<and> fmlookup sample_patch ''createdAt'' = Some (JStr ''2001-01-01'')
   \<and> (\<exists>u. fst (updateConversation ''e1'' 9 sample_patch sample_store) = Some u
         \<and> get_field u ''id'' = JStr ''e1''
         \<and> get_field u ''updatedAt'' = JDate 9
         \<and> get_field u ''createdAt'' = JStr ''2001-01-01'')
   \<and> (\<exists>u. fst (updateGoal ''e1'' 9 sample_patch sample_store) = Some u
         \<and> get_field u ''id'' = JStr ''e1''
         \<and> get_field u ''updatedAt'' = JDate 9
         \<and> get_field u ''createdAt'' = JStr ''2001-01-01'')
   \<and> (\<exists>u. fst (updateNote ''e1'' 9 sample_patch sample_store) = Some u
         \<and> get_field u ''id'' = JStr ''e1''
         \<and> get_field u ''updatedAt'' = JDate 9
         \<and> get_field u ''createdAt'' = JStr ''2001-01-01'')"
  using update_keeps_id_and_stamp [of "''e1''" sample_store sample_entity 9 sample_patch]
    sample_lookups sample_fields
  by (simp only: simp_thms) blast

section \<open>Listing the messages of a conversation\<close>

lemma messages_createMessage:
  "messages (snd (createMessage u t im s)) = map_set u (fst (createMessage u t im s)) (messages s)"
  by (simp add: createMessage_def Let_def)

lemma messages_createMessages:
  "distinct (map fst ins) \<Longrightarrow> fst ` set ins \<inter> map_keys (messages s) = {} \<Longrightarrow>
     messages (createMessages ins s) =
       messages s @ map (\<lambda>(u, t, im). (u, fst (createMessage u t im s))) ins"
proof (induction ins arbitrary: s)
  case Nil
  then show ?case by simp
next
  case (Cons x ins)
  obtain u t im where x: "x = (u, t, im)" by (cases x)
  let ?s1 = "snd (createMessage u t im s)"
  from Cons.prems x have fresh: "u \<notin> map_keys (messages s)" by auto
  have m1: "messages ?s1 = messages s @ [(u, fst (createMessage u t im s))]"
    by (simp add: messages_createMessage map_set_fresh [OF fresh])
  have k1: "map_keys (messages ?s1) = insert u (map_keys (messages s))"
    by (simp add: messages_createMessage map_keys_set)
  from Cons.prems x have d: "distinct (map fst ins)" and n: "u \<notin> fst ` set ins"
    by auto
  from Cons.prems x n have disj: "fst ` set ins \<inter> map_keys (messages ?s1) = {}"
    unfolding k1 by auto
  have same: "map (\<lambda>(u', t', im'). (u', fst (createMessage u' t' im' ?s1))) ins
               = map (\<lambda>(u', t', im'). (u', fst (createMessage u' t' im' s))) ins"
    by (simp add: createMessage_def Let_def)
  show ?case
    using Cons.IH [OF d disj] by (simp add: x m1 same)
qed

text \<open>
  Claim C6. After any run of message insertions into any store, whatever conversations
  they go to and whatever times they carry, the listing of a conversation is in
  non-decreasing \<open>createdAt\<close> order and holds exactly the stored messages of that
  conversation, each as often as it is stored. When the ids drawn are new and pairwise
  different, what is stored is what was there before followed by the inserted messages.
\<close>

theorem getMessages_sorted_exact:
  "sorted (map m_createdAt (getMessages cid (createMessages ins s)))
   \<and> mset (getMessages cid (createMessages ins s)) =
       filter_mset (\<lambda>m. m_conversationId m = cid)
         (mset (map_values (messages (createMessages ins s))))
   \<and> (distinct (map fst ins) \<and> fst ` set ins \<inter> map_keys (messages s) = {} \<longrightarrow>
         map_values (messages (createMessages ins s)) =
           map_values (messages s) @ map (\<lambda>(u, t, im). fst (createMessage u t im s)) ins)"
proof (intro conjI impI)
  show "sorted (map m_createdAt (getMessages cid (createMessages ins s)))"
    by (simp add: getMessages_def)
  show "mset (getMessages cid (createMessages ins s)) =
       filter_mset (\<lambda>m. m_conversationId m = cid)
         (mset (map_values (messages (createMessages ins s))))"
    by (simp add: getMessages_def)
next
  assume "distinct (map fst ins) \<and> fst ` set ins \<inter> map_keys (messages s) = {}"
  then show "map_values (messages (createMessages ins s)) =
           map_values (messages s) @ map (\<lambda>(u, t, im). fst (createMessage u t im s)) ins"
    by (simp add: messages_createMessages map_values_def case_prod_unfold comp_def)
qed

lemma sample_inserts_fresh:
  "distinct (map fst sample_inserts)"
  "fst ` set sample_inserts \<inter> map_keys (messages empty_store) = {}"
  by (simp_all add: sample_inserts_def empty_store_def map_keys_def)

lemma sample_listing:
  "getMessages ''a'' (createMessages sample_inserts empty_store) =
     [\<lparr>m_id = ''m3'', m_conversationId = ''a'', m_role = ''user'', m_content = ''three'',
        m_createdAt = 20\<rparr>,
      \<lparr>m_id = ''m1'', m_conversationId = ''a'', m_role = ''user'', m_content = ''one'',
        m_createdAt = 30\<rparr>]"
  by (simp add: sample_inserts_def empty_store_def getMessages_def createMessage_def
        map_set_def map_values_def Let_def)

theorem getMessages_sorted_exact_witness:
  "distinct (map fst sample_inserts)
   \<and> fst ` set sample_inserts \<inter> map_keys (messages empty_store) = {}
   \<and> getMessages ''a'' (createMessages sample_inserts empty_store) =
       [\<lparr>m_id = ''m3'', m_conversationId = ''a'', m_role = ''user'', m_content = ''three'',
          m_createdAt = 20\<rparr>,
        \<lparr>m_id = ''m1'', m_conversationId = ''a'', m_role = ''user'', m_content = ''one'',
          m_createdAt = 30\<rparr>]
   \<and> sorted (map m_createdAt (getMessages ''a'' (createMessages sample_inserts empty_store)))
   \<and> map_values (messages (createMessages sample_inserts empty_store)) =
       map (\<lambda>(u, t, im). fst (createMessage u t im empty_store)) sample_inserts"
  using getMessages_sorted_exact [of "''a''" sample_inserts empty_store]
    sample_inserts_fresh sample_listing
  by (simp add: empty_store_def map_values_def)

section \<open>The daily summary never fails\<close>

text \<open>
  Claim C7. For all counters, \<open>generateDailySummary\<close> returns a value and never an
  error. When the provider call throws it returns the two strings of the \<open>catch\<close>
  block; when the provider answers and the answer parses to the empty array it returns
  the two strings of the empty case. Both lists are fixed and have two strings; they
  are not the same list.
\<close>

theorem generateDailySummary_masks_failure:
  "(\<exists>v. generateDailySummary ai jp rt a b c = Inr v)
   \<and> (ai (summaryRequest rt a b c) = Throws \<longrightarrow>
        generateDailySummary ai jp rt a b c = Inr fallback_catch)
   \<and> (\<forall>t. ai (summaryRequest rt a b c) = Response t \<and> jp (text_or t ''[]'') = Some (JArr []) \<longrightarrow>
        generateDailySummary ai jp rt a b c = Inr fallback_empty)
   \<and> fallback_catch = JArr [JStr ''Keep building your momentum!'', JStr ''Great progress today.'']
   \<and> fallback_empty = JArr [JStr ''Keep up the great work!'', JStr ''Every step forward counts.'']"
  by (auto simp add: generateDailySummary_def generateDailySummary_try_def fallback_catch_def
        fallback_empty_def split: sum.split provider_result.split option.split)

theorem generateDailySummary_masks_failure_witness:
  "throwing_provider (summaryRequest sample_runtime 1 2 3) = Throws
   \<and> generateDailySummary throwing_provider sample_parse sample_runtime 1 2 3 =
       Inr (JArr [JStr ''Keep building your momentum!'', JStr ''Great progress today.''])
   \<and> empty_list_provider (summaryRequest sample_runtime 1 2 3) = Response (Some ''[]'')
   \<and> sample_parse (text_or (Some ''[]'') ''[]'') = Some (JArr [])
   \<and> generateDailySummary empty_list_provider sample_parse sample_runtime 1 2 3 =
       Inr (JArr [JStr ''Keep up the great work!'', JStr ''Every step forward counts.''])"
  using generateDailySummary_masks_failure [of throwing_provider sample_parse sample_runtime 1 2 3]
    generateDailySummary_masks_failure [of empty_list_provider sample_parse sample_runtime 1 2 3]
  by (simp add: throwing_provider_def empty_list_provider_def sample_parse_def text_or_def)

section \<open>The chat handler\<close>

lemma map_set_append_last:
  "k \<notin> map_keys m \<Longrightarrow> map_set k v' (m @ [(k, v)]) = m @ [(k, v')]"
  unfolding map_keys_def map_set_def by (induction m) auto

lemma map_keys_append: "map_keys (m @ [(k, v)]) = insert k (map_keys m)"
  by (auto simp add: map_keys_def)

lemma chat_valid_message:
  "get_field body ''message'' = JStr msg \<Longrightarrow> msg \<noteq> [] \<Longrightarrow>
     chat ai env body s =
       (case createOrGetConversation env msg (get_field body ''conversationId'') s of
          Inl answer \<Rightarrow> (answer, s)
        | Inr (convId, s1) \<Rightarrow>
            (let (userMessage, s2) =
                   createMessage (user_uuid env) (user_now env)
                     \<lparr>im_conversationId = convId, im_role = ''user'', im_content = msg\<rparr> s1;
                 history = conversationHistory userMessage (getMessages convId s2)
             in case chatWithAI ai msg history of
                  Inl err \<Rightarrow> (Error 500 ''Failed to process chat message'', s2)
                | Inr aiResponse \<Rightarrow>
                    (let (aiMessage, s3) =
                           createMessage (reply_uuid env) (reply_now env)
                             \<lparr>im_conversationId = convId, im_role = ''assistant'',
                              im_content = aiResponse\<rparr> s2;
                         (touched, s4) =
                           updateConversation convId (touch_now env)
                             (fmupd ''updatedAt'' (JDate (patch_now env)) fmempty) s3;
                         (logged, s5) =
                           createActivity (act_uuid env) (act_now env)
                             \<lparr>ia_type = ''chat'', ia_description = chatDescription msg\<rparr> s4
                     in (Json \<lparr>cr_message = aiMessage, cr_conversationId = convId\<rparr>, s5))))"
  by (simp add: chat_def)

lemma chat_invalid_message:
  "\<not> (\<exists>msg. get_field body ''message'' = JStr msg \<and> msg \<noteq> []) \<Longrightarrow>
     chat ai env body s = (Error 400 ''Message is required'', s)"
  by (cases "get_field body ''message''") (simp_all add: chat_def)

lemma createOrGetConversation_create:
  "\<not> truthy cid \<Longrightarrow>
     createOrGetConversation env msg cid s =
       Inr (conv_uuid env,
            s\<lparr>conversations :=
                 map_set (conv_uuid env)
                   (fmupd ''updatedAt'' (JDate (conv_now env))
                     (fmupd ''createdAt'' (JDate (conv_now env))
                       (fmupd ''id'' (JStr (conv_uuid env))
                         (fmupd ''title'' (JStr (conversationTitle msg)) fmempty))))
                   (conversations s)\<rparr>)"
  by (simp add: createOrGetConversation_def createConversation_def Let_def)

lemma createOrGetConversation_found:
  "getConversation c s = Some conv \<Longrightarrow> c \<noteq> [] \<Longrightarrow>
     createOrGetConversation env msg (JStr c) s = Inr (c, s)"
  by (simp add: createOrGetConversation_def)

lemma createOrGetConversation_unknown:
  "truthy cid \<Longrightarrow> \<forall>c. cid = JStr c \<longrightarrow> getConversation c s = None \<Longrightarrow>
     createOrGetConversation env msg cid s = Inl (Error 404 ''Conversation not found'')"
  by (cases cid) (simp_all add: createOrGetConversation_def)

lemma touch_new_conversation:
  "merge_patch
     (fmupd ''updatedAt'' (JDate t0)
       (fmupd ''createdAt'' (JDate t0)
         (fmupd ''id'' (JStr u) (fmupd ''title'' (JStr ttl) fmempty))))
     (fmupd ''updatedAt'' (JDate tp) fmempty) t1
   = fmupd ''updatedAt'' (JDate t1)
       (fmupd ''createdAt'' (JDate t0)
         (fmupd ''id'' (JStr u) (fmupd ''title'' (JStr ttl) fmempty)))"
  by (rule fmap_ext) (auto simp add: merge_patch_def get_field_def)

lemma map_get_append_fresh:
  "k \<notin> map_keys m \<Longrightarrow> map_get (m @ [(k, v)]) k = Some v"
  by (simp add: map_get_def map_keys_def map_add_def map_of_eq_None_iff [symmetric])

lemma conversations_createMessage [simp]:
  "conversations (snd (createMessage u t im s)) = conversations s"
  by (simp add: createMessage_def Let_def)

lemma conversations_createActivity [simp]:
  "conversations (snd (createActivity u t ia s)) = conversations s"
  by (simp add: createActivity_def Let_def)

lemma sample_env_simps:
  "conv_uuid sample_env = ''c-new''" "conv_now sample_env = 100"
  "user_uuid sample_env = ''u1''" "user_now sample_env = 101"
  "reply_uuid sample_env = ''r1''" "reply_now sample_env = 102"
  "patch_now sample_env = 103" "touch_now sample_env = 104"
  "act_uuid sample_env = ''a1''" "act_now sample_env = 105"
  by (simp_all add: sample_env_def)

subsection \<open>An unknown conversation id\<close>

text \<open>
  Claim C1, as amended. For every chat request whose \<open>message\<close> is a non-empty string
  and whose \<open>conversationId\<close> is truthy and is not the key of a stored conversation,
  the handler answers 404 "Conversation not found" and returns the store it was given.

  The two conditions are needed. The handler tests the message first, so a request with
  an empty message and an unknown id is answered 400; and it tests \<open>!convId\<close>, so an
  id that is present but falsy, such as the empty string, is treated as omitted: a new
  conversation is created and the exchange is stored.
\<close>

theorem chat_unknown_conversation:
  assumes "get_field body ''message'' = JStr msg" and "msg \<noteq> []"
    and "truthy (get_field body ''conversationId'')"
    and "\<forall>c. get_field body ''conversationId'' = JStr c \<longrightarrow> getConversation c s = None"
  shows "chat ai env body s = (Error 404 ''Conversation not found'', s)"
  using assms
  by (simp add: chat_valid_message createOrGetConversation_unknown)

theorem chat_unknown_conversation_witness:
  "get_field sample_unknown_body ''message'' = JStr ''hello''
   \<and> truthy (get_field sample_unknown_body ''conversationId'')
   \<and> getConversation ''nope'' sample_store = None
   \<and> chat reply_provider sample_env sample_unknown_body sample_store =
       (Error 404 ''Conversation not found'', sample_store)"
  using chat_unknown_conversation [of sample_unknown_body "''hello''" sample_store
          reply_provider sample_env]
  by (simp add: sample_unknown_body_def get_field_def getConversation_def map_get_def
        sample_store_def)

theorem chat_unknown_conversation_counterexample:
  "fmlookup sample_no_message_body ''conversationId'' = Some (JStr ''nope'')
   \<and> getConversation ''nope'' sample_store = None
   \<and> chat reply_provider sample_env sample_no_message_body sample_store =
       (Error 400 ''Message is required'', sample_store)
   \<and> fmlookup sample_blank_id_body ''conversationId'' = Some (JStr [])
   \<and> getConversation [] sample_store = None
   \<and> fst (chat reply_provider sample_env sample_blank_id_body sample_store) =
       Json \<lparr>cr_message =
               \<lparr>m_id = ''r1'', m_conversationId = ''c-new'', m_role = ''assistant'',
                m_content = ''Sure.'', m_createdAt = 102\<rparr>,
             cr_conversationId = ''c-new''\<rparr>
   \<and> map fst (conversations (snd (chat reply_provider sample_env sample_blank_id_body sample_store)))
       = [''e1'', ''c-new'']
   \<and> map fst (messages (snd (chat reply_provider sample_env sample_blank_id_body sample_store)))
       = [''u1'', ''r1'']
   \<and> map fst (activities (snd (chat reply_provider sample_env sample_blank_id_body sample_store)))
       = [''a1'']"
  by (simp add: sample_no_message_body_def sample_blank_id_body_def sample_store_def
        sample_env_def reply_provider_def chat_def get_field_def getConversation_def
        map_get_def map_set_def map_values_def createOrGetConversation_def
        createConversation_def createMessage_def createActivity_def updateConversation_def
        getMessages_def conversationHistory_def chatWithAI_def text_or_def Let_def)

subsection \<open>A first message\<close>

text \<open>
  Claim C3. For every chat request with a non-empty message and no \<open>conversationId\<close>,
  when the provider answers, and the ids drawn are new (the conversation id is neither
  a key of the conversations nor referred to by a stored message, the two message ids
  are new and different, the activity id is new): the handler answers with the assistant
  message and the new conversation id, and the store differs from the one given in
  exactly this: one conversation appended, whose \<open>updatedAt\<close> is the time of the final
  touch; two messages appended, first the user's with the input, then the assistant's
  with the gateway's reply; one activity of type chat appended.
\<close>

theorem chat_new_conversation:
  assumes msg: "get_field body ''message'' = JStr msg" "msg \<noteq> []"
    and omitted: "fmlookup body ''conversationId'' = None"
    and reply: "ai (chatRequest [(''user'', msg)]) = Response t"
    and fresh_conv: "conv_uuid env \<notin> map_keys (conversations s)"
      "conv_uuid env \<notin> m_conversationId ` set (map_values (messages s))"
    and fresh_msg: "user_uuid env \<notin> map_keys (messages s)"
      "reply_uuid env \<notin> map_keys (messages s)" "reply_uuid env \<noteq> user_uuid env"
    and fresh_act: "act_uuid env \<notin> map_keys (activities s)"
  shows "chat ai env body s =
    (Json \<lparr>cr_message =
             \<lparr>m_id = reply_uuid env, m_conversationId = conv_uuid env,
              m_role = ''assistant'',
              m_content = text_or t ''I'm sorry, I couldn't generate a response. Please try again.'',
              m_createdAt = reply_now env\<rparr>,
           cr_conversationId = conv_uuid env\<rparr>,
     s\<lparr>conversations :=
          conversations s @
            [(conv_uuid env,
              fmupd ''updatedAt'' (JDate (touch_now env))
                (fmupd ''createdAt'' (JDate (conv_now env))
                  (fmupd ''id'' (JStr (conv_uuid env))
                    (fmupd ''title'' (JStr (conversationTitle msg)) fmempty))))],
        messages :=
          messages s @
            [(user_uuid env,
              \<lparr>m_id = user_uuid env, m_conversationId = conv_uuid env, m_role = ''user'',
               m_content = msg, m_createdAt = user_now env\<rparr>),
             (reply_uuid env,
              \<lparr>m_id = reply_uuid env, m_conversationId = conv_uuid env,
               m_role = ''assistant'',
               m_content = text_or t ''I'm sorry, I couldn't generate a response. Please try again.'',
               m_createdAt = reply_now env\<rparr>)],
        activities :=
          activities s @
            [(act_uuid env,
              \<lparr>a_id = act_uuid env, a_type = ''chat'',
               a_description = chatDescription msg, a_createdAt = act_now env\<rparr>)]\<rparr>)"
proof -
  let ?c = "conv_uuid env"
  let ?conv0 = "fmupd ''updatedAt'' (JDate (conv_now env))
                 (fmupd ''createdAt'' (JDate (conv_now env))
                   (fmupd ''id'' (JStr ?c) (fmupd ''title'' (JStr (conversationTitle msg)) fmempty)))"
  let ?um = "\<lparr>m_id = user_uuid env, m_conversationId = ?c, m_role = ''user'',
               m_content = msg, m_createdAt = user_now env\<rparr>"
  let ?s1 = "s\<lparr>conversations := conversations s @ [(?c, ?conv0)]\<rparr>"
  let ?s2 = "?s1\<lparr>messages := messages s @ [(user_uuid env, ?um)]\<rparr>"
  from omitted have cid: "get_field body ''conversationId'' = JUndefined"
    by (simp add: get_field_def)
  have step1: "createOrGetConversation env msg (get_field body ''conversationId'') s = Inr (?c, ?s1)"
    by (simp add: cid createOrGetConversation_create map_set_fresh [OF fresh_conv(1)])
  have step2: "createMessage (user_uuid env) (user_now env)
                 \<lparr>im_conversationId = ?c, im_role = ''user'', im_content = msg\<rparr> ?s1 = (?um, ?s2)"
    by (simp add: createMessage_def Let_def map_set_fresh [OF fresh_msg(1)])
  have none: "filter (\<lambda>m. m_conversationId m = ?c) (map snd (messages s)) = []"
    using fresh_conv(2) by (force simp add: filter_empty_conv map_values_def)
  have listing: "getMessages ?c ?s2 = [?um]"
    by (simp add: getMessages_def map_values_def none)
  have hist: "conversationHistory ?um (getMessages ?c ?s2) = []"
    by (simp add: listing conversationHistory_def)
  have ai: "chatWithAI ai msg [] =
              Inr (text_or t ''I'm sorry, I couldn't generate a response. Please try again.'')"
    using reply by (simp add: chatWithAI_def)
  have r2: "reply_uuid env \<notin> map_keys (messages s @ [(user_uuid env, ?um)])"
    using fresh_msg by (simp add: map_keys_append)
  show ?thesis
    apply (simp add: chat_valid_message [OF msg] step1 step2 hist ai)
    apply (simp add: createMessage_def Let_def map_set_fresh [OF r2])
    apply (simp add: updateConversation_def Let_def map_get_append_fresh [OF fresh_conv(1)]
             touch_new_conversation map_set_append_last [OF fresh_conv(1)])
    apply (simp add: createActivity_def Let_def map_set_fresh [OF fresh_act])
    done
qed

theorem chat_new_conversation_witness:
  "get_field sample_chat_body ''message'' = JStr ''hello''
   \<and> fmlookup sample_chat_body ''conversationId'' = None
   \<and> reply_provider (chatRequest [(''user'', ''hello'')]) = Response (Some ''Sure.'')
   \<and> map fst (conversations (snd (chat reply_provider sample_env sample_chat_body sample_store)))
       = [''e1'', ''c-new'']
   \<and> map_values (messages (snd (chat reply_provider sample_env sample_chat_body sample_store)))
       = [\<lparr>m_id = ''u1'', m_conversationId = ''c-new'', m_role = ''user'',
           m_content = ''hello'', m_createdAt = 101\<rparr>,
          \<lparr>m_id = ''r1'', m_conversationId = ''c-new'', m_role = ''assistant'',
           m_content = ''Sure.'', m_createdAt = 102\<rparr>]
   \<and> map_values (activities (snd (chat reply_provider sample_env sample_chat_body sample_store)))
       = [\<lparr>a_id = ''a1'', a_type = ''chat'',
           a_description = ''Had a conversation about: hello'', a_createdAt = 105\<rparr>]"
  using chat_new_conversation [of sample_chat_body "''hello''" reply_provider "Some ''Sure.''"
          sample_env sample_store]
  by (simp add: sample_chat_body_def get_field_def reply_provider_def sample_env_simps
        sample_store_def map_keys_def map_values_def text_or_def chatDescription_def)

subsection \<open>A failing gateway\<close>

text \<open>
  Claim C4. For every chat request with a non-empty message whose conversation resolves
  (found, or newly created), if the gateway call fails after the user's message has been
  stored, the handler answers 500 and returns the store as it was after storing that
  message: the user's message is there, the only change to the messages is that one
  entry, activities, goals and notes are as given, and the conversations are as given
  when the conversation existed, and otherwise hold the new conversation as created,
  its \<open>updatedAt\<close> still the creation time.
\<close>

theorem chat_gateway_failure:
  assumes msg: "get_field body ''message'' = JStr msg" "msg \<noteq> []"
    and resolved:
      "createOrGetConversation env msg (get_field body ''conversationId'') s = Inr (c, s1)"
    and saved:
      "createMessage (user_uuid env) (user_now env)
         \<lparr>im_conversationId = c, im_role = ''user'', im_content = msg\<rparr> s1 = (um, s2)"
    and failed: "chatWithAI ai msg (conversationHistory um (getMessages c s2)) = Inl err"
  shows "chat ai env body s = (Error 500 ''Failed to process chat message'', s2)
    \<and> um = \<lparr>m_id = user_uuid env, m_conversationId = c, m_role = ''user'',
              m_content = msg, m_createdAt = user_now env\<rparr>
    \<and> map_get (messages s2) (user_uuid env) = Some um
    \<and> messages s2 = map_set (user_uuid env) um (messages s)
    \<and> activities s2 = activities s
    \<and> goals s2 = goals s
    \<and> notes_map s2 = notes_map s
    \<and> (if truthy (get_field body ''conversationId'')
        then conversations s2 = conversations s \<and> getConversation c s \<noteq> None
        else c = conv_uuid env
           \<and> conversations s2 =
               map_set (conv_uuid env)
                 (fmupd ''updatedAt'' (JDate (conv_now env))
                   (fmupd ''createdAt'' (JDate (conv_now env))
                     (fmupd ''id'' (JStr (conv_uuid env))
                       (fmupd ''title'' (JStr (conversationTitle msg)) fmempty))))
                 (conversations s))"
proof -
  have answer: "chat ai env body s = (Error 500 ''Failed to process chat message'', s2)"
    by (simp add: chat_valid_message [OF msg] resolved saved failed)
  have um: "um = \<lparr>m_id = user_uuid env, m_conversationId = c, m_role = ''user'',
              m_content = msg, m_createdAt = user_now env\<rparr>"
    and s2: "s2 = s1\<lparr>messages := map_set (user_uuid env) um (messages s1)\<rparr>"
    using saved by (auto simp add: createMessage_def Let_def)
  have conv:
    "messages s1 = messages s \<and> activities s1 = activities s \<and> goals s1 = goals s
       \<and> notes_map s1 = notes_map s
       \<and> (if truthy (get_field body ''conversationId'')
           then conversations s1 = conversations s \<and> getConversation c s \<noteq> None
           else c = conv_uuid env
              \<and> conversations s1 =
                  map_set (conv_uuid env)
                    (fmupd ''updatedAt'' (JDate (conv_now env))
                      (fmupd ''createdAt'' (JDate (conv_now env))
                        (fmupd ''id'' (JStr (conv_uuid env))
                          (fmupd ''title'' (JStr (conversationTitle msg)) fmempty))))
                    (conversations s))"
  proof (cases "truthy (get_field body ''conversationId'')")
    case False
    with resolved show ?thesis
      by (auto simp add: createOrGetConversation_create)
  next
    case True
    with resolved show ?thesis
      by (cases "get_field body ''conversationId''")
         (auto simp add: createOrGetConversation_def split: option.splits)
  qed
  show ?thesis
    using answer um conv by (simp add: s2 map_get_set)
qed

theorem chat_gateway_failure_witness:
  "get_field sample_followup_body ''message'' = JStr ''hello''
   \<and> createOrGetConversation sample_env ''hello''
         (get_field sample_followup_body ''conversationId'') sample_store
       = Inr (''e1'', sample_store)
   \<and> chatWithAI throwing_provider ''hello'' [] = Inl ''Failed to get AI response''
   \<and> chat throwing_provider sample_env sample_followup_body sample_store =
       (Error 500 ''Failed to process chat message'',
        sample_store\<lparr>messages :=
          [(''u1'', \<lparr>m_id = ''u1'', m_conversationId = ''e1'', m_role = ''user'',
                     m_content = ''hello'', m_createdAt = 101\<rparr>)]\<rparr>)"
proof -
  let ?um = "\<lparr>m_id = ''u1'', m_conversationId = ''e1'', m_role = ''user'',
              m_content = ''hello'', m_createdAt = 101\<rparr>"
  let ?s2 = "sample_store\<lparr>messages := [(''u1'', ?um)]\<rparr>"
  have h1: "get_field sample_followup_body ''message'' = JStr ''hello''"
    by (simp add: sample_followup_body_def get_field_def)
  have h2: "''hello'' \<noteq> []" by simp
  have h3: "createOrGetConversation sample_env ''hello''
              (get_field sample_followup_body ''conversationId'') sample_store
            = Inr (''e1'', sample_store)"
    by (simp add: sample_followup_body_def get_field_def createOrGetConversation_def
          sample_lookups)
  have h4: "createMessage (user_uuid sample_env) (user_now sample_env)
              \<lparr>im_conversationId = ''e1'', im_role = ''user'', im_content = ''hello''\<rparr>
              sample_store = (?um, ?s2)"
    by (simp add: createMessage_def Let_def sample_env_simps sample_store_def map_set_def)
  have h5: "conversationHistory ?um (getMessages ''e1'' ?s2) = []"
    by (simp add: conversationHistory_def getMessages_def map_values_def)
  have h6: "chatWithAI throwing_provider ''hello'' [] = Inl ''Failed to get AI response''"
    by (simp add: chatWithAI_def throwing_provider_def)
  from h6 h5 have h7: "chatWithAI throwing_provider ''hello''
          (conversationHistory ?um (getMessages ''e1'' ?s2)) = Inl ''Failed to get AI response''"
    by simp
  from chat_gateway_failure [OF h1 h2 h3 h4 h7] h1 h3 h6 show ?thesis
    by simp
qed

subsection \<open>The title of a new conversation\<close>

text \<open>
  Claim C8. For every chat request with a non-empty message and no \<open>conversationId\<close>,
  whatever the provider does, the conversation stored under the new id has as title the
  message itself when it has at most 50 characters, and its first 50 characters followed
  by three dots otherwise.
\<close>

theorem chat_title:
  assumes msg: "get_field body ''message'' = JStr msg" "msg \<noteq> []"
    and omitted: "fmlookup body ''conversationId'' = None"
  shows "\<exists>conv. getConversation (conv_uuid env) (snd (chat ai env body s)) = Some conv
           \<and> get_field conv ''title'' =
               JStr (if length msg \<le> 50 then msg else take 50 msg @ ''...'')"
proof -
  let ?c = "conv_uuid env"
  let ?conv0 = "fmupd ''updatedAt'' (JDate (conv_now env))
                 (fmupd ''createdAt'' (JDate (conv_now env))
                   (fmupd ''id'' (JStr ?c) (fmupd ''title'' (JStr (conversationTitle msg)) fmempty)))"
  let ?s1 = "s\<lparr>conversations := map_set ?c ?conv0 (conversations s)\<rparr>"
  from omitted have cid: "get_field body ''conversationId'' = JUndefined"
    by (simp add: get_field_def)
  have step1: "createOrGetConversation env msg (get_field body ''conversationId'') s = Inr (?c, ?s1)"
    by (simp add: cid createOrGetConversation_create)
  have title: "conversationTitle msg = (if length msg \<le> 50 then msg else take 50 msg @ ''...'')"
    by (simp add: conversationTitle_def)
  have t0: "get_field ?conv0 ''title'' = JStr (conversationTitle msg)"
    by (simp add: get_field_def)
  have t1: "get_field (merge_patch ?conv0 (fmupd ''updatedAt'' x fmempty) n) ''title''
              = JStr (conversationTitle msg)" for x n
    by (simp add: merge_patch_def get_field_def)
  obtain um s2 where saved: "createMessage (user_uuid env) (user_now env)
         \<lparr>im_conversationId = ?c, im_role = ''user'', im_content = msg\<rparr> ?s1 = (um, s2)"
    by (cases "createMessage (user_uuid env) (user_now env)
         \<lparr>im_conversationId = ?c, im_role = ''user'', im_content = msg\<rparr> ?s1")
  have c2: "conversations s2 = map_set ?c ?conv0 (conversations s)"
    using saved by (auto simp add: createMessage_def Let_def)
  show ?thesis
  proof (cases "chatWithAI ai msg (conversationHistory um (getMessages ?c s2))")
    case (Inl err)
    then have "chat ai env body s = (Error 500 ''Failed to process chat message'', s2)"
      by (simp add: chat_valid_message [OF msg] step1 saved)
    then show ?thesis
      by (simp add: getConversation_def c2 map_get_set t0 title [symmetric])
  next
    case (Inr aiResponse)
    obtain am s3 where replied: "createMessage (reply_uuid env) (reply_now env)
         \<lparr>im_conversationId = ?c, im_role = ''assistant'', im_content = aiResponse\<rparr> s2 = (am, s3)"
      by (cases "createMessage (reply_uuid env) (reply_now env)
         \<lparr>im_conversationId = ?c, im_role = ''assistant'', im_content = aiResponse\<rparr> s2")
    have c3: "conversations s3 = map_set ?c ?conv0 (conversations s)"
      using replied c2 by (auto simp add: createMessage_def Let_def)
    then have found: "getConversation ?c s3 = Some ?conv0"
      by (simp add: getConversation_def map_get_set)
    show ?thesis
      by (simp add: chat_valid_message [OF msg] step1 saved Inr replied
            updateConversation_found [OF found] split_beta getConversation_def
            map_get_set t1 title [symmetric])
  qed
qed

theorem chat_title_witness:
  "get_field sample_long_body ''message'' = JStr sample_long_message
   \<and> length sample_long_message = 70
   \<and> fmlookup sample_long_body ''conversationId'' = None
   \<and> (\<exists>conv. getConversation ''c-new''
                (snd (chat reply_provider sample_env sample_long_body sample_store)) = Some conv
           \<and> get_field conv ''title'' =
               JStr ''Please help me plan a study schedule for learning ...'')"
proof -
  have h1: "get_field sample_long_body ''message'' = JStr sample_long_message"
    by (simp add: sample_long_body_def get_field_def)
  have h2: "sample_long_message \<noteq> []" by (simp add: sample_long_message_def)
  have h3: "fmlookup sample_long_body ''conversationId'' = None"
    by (simp add: sample_long_body_def)
  have len: "length sample_long_message = 70"
    by (simp add: sample_long_message_def)
  have cut: "take 50 sample_long_message @ ''...''
               = ''Please help me plan a study schedule for learning ...''"
    by (simp add: sample_long_message_def)
  from chat_title [OF h1 h2 h3, of sample_env reply_provider sample_store] h1 h3 len cut
  show ?thesis by (simp add: sample_env_simps)
qed

section \<open>Updating goals and notes\<close>

lemma patchNote_missing:
  "getNote i s = None \<Longrightarrow> patchNote rt now uuid t i body s = (Error 404 ''Note not found'', s)"
  by (simp add: patchNote_def updateNote_def getNote_def)

lemma patchNote_logged:
  "getNote i s = Some e \<Longrightarrow>
   js_string rt (get_field (merge_patch e body now) ''title'') = Some title \<Longrightarrow>
     patchNote rt now uuid t i body s =
       (Json (merge_patch e body now),
        s\<lparr>notes_map := map_set i (merge_patch e body now) (notes_map s),
          activities :=
            map_set uuid
              \<lparr>a_id = uuid, a_type = ''note_updated'',
               a_description = ''Updated note: '' @ title, a_createdAt = t\<rparr>
              (activities s)\<rparr>)"
  by (simp add: patchNote_def updateNote_found createActivity_def Let_def)

lemma patchNote_throws:
  "getNote i s = Some e \<Longrightarrow>
   js_string rt (get_field (merge_patch e body now) ''title'') = None \<Longrightarrow>
     patchNote rt now uuid t i body s =
       (Error 500 ''Failed to update note'',
        s\<lparr>notes_map := map_set i (merge_patch e body now) (notes_map s)\<rparr>)"
  by (simp add: patchNote_def updateNote_found)

lemma patchGoal_missing:
  "getGoal i s = None \<Longrightarrow> patchGoal rt now uuid t i body s = (Error 404 ''Goal not found'', s)"
  by (simp add: patchGoal_def)

lemma patchGoal_logged:
  "getGoal i s = Some e \<Longrightarrow>
   js_string rt (get_field (merge_patch e body now) ''title'') = Some title \<Longrightarrow>
     patchGoal rt now uuid t i body s =
       (Json (merge_patch e body now),
        s\<lparr>goals := map_set i (merge_patch e body now) (goals s),
          activities :=
            map_set uuid
              (if get_field body ''completed'' = JBool True \<and> \<not> truthy (get_field e ''completed'')
               then \<lparr>a_id = uuid, a_type = ''goal_completed'',
                      a_description = ''Completed goal: '' @ title, a_createdAt = t\<rparr>
               else \<lparr>a_id = uuid, a_type = ''goal_updated'',
                      a_description = ''Updated goal: '' @ title, a_createdAt = t\<rparr>)
              (activities s)\<rparr>)"
  by (simp add: patchGoal_def updateGoal_found createActivity_def Let_def)

lemma patchGoal_throws:
  "getGoal i s = Some e \<Longrightarrow>
   js_string rt (get_field (merge_patch e body now) ''title'') = None \<Longrightarrow>
     patchGoal rt now uuid t i body s =
       (Error 500 ''Failed to update goal'',
        s\<lparr>goals := map_set i (merge_patch e body now) (goals s)\<rparr>)"
  by (simp add: patchGoal_def updateGoal_found)

lemma merge_patch_read:
  "get_field (merge_patch e body now) k =
     (if k = ''updatedAt'' then JDate now
      else if k = ''id'' then get_field e ''id''
      else (case fmlookup body k of None \<Rightarrow> get_field e k | Some v \<Rightarrow> v))"
  by (simp add: merge_patch_def get_field_def fmdom_notI fmdomI split: option.split)

lemma sample_title:
  "js_string rt (get_field (merge_patch sample_entity bad_note_patch now) ''title'') = Some ''Learn X''"
  "js_string rt (get_field (merge_patch sample_entity bad_goal_patch now) ''title'') = Some ''Learn X''"
  "js_string rt (get_field (merge_patch sample_entity completing_patch now) ''title'') = Some ''Learn X''"
  "js_string rt (get_field (merge_patch null_completed_goal completing_only_patch now) ''title'')
     = Some ''Learn X''"
  "js_string rt (get_field (merge_patch sample_entity unprintable_title_patch now) ''title'') = None"
  by (simp_all add: merge_patch_def sample_entity_def bad_note_patch_def bad_goal_patch_def
        completing_patch_def completing_only_patch_def null_completed_goal_def
        unprintable_title_patch_def get_field_def)

text \<open>
  Claim C2, as amended. The update handlers for goals and notes do not validate the
  body, and no update request is answered 400. When the id is unknown the answer is 404
  and the store is returned as given. When the id is known the body, whether it conforms
  to the schema or not, is merged over the stored entity and the result is stored: a
  field read from it is the current time for \<open>updatedAt\<close>, the stored value for \<open>id\<close>,
  the body's value for every other field the body has, and the stored value for the
  rest. When the request is answered with success, the answer is that stored entity and
  one activity has been recorded, of type note_updated for a note and of type
  goal_completed or goal_updated for a goal.
\<close>

theorem patch_not_validated:
  "(\<forall>m. fst (patchNote rt now uuid t i body s) \<noteq> Error 400 m)
   \<and> (\<forall>m. fst (patchGoal rt now uuid t i body s) \<noteq> Error 400 m)
   \<and> (getNote i s = None \<longrightarrow>
        patchNote rt now uuid t i body s = (Error 404 ''Note not found'', s))
   \<and> (getGoal i s = None \<longrightarrow>
        patchGoal rt now uuid t i body s = (Error 404 ''Goal not found'', s))
   \<and> (\<forall>e. getNote i s = Some e \<longrightarrow>
        (\<exists>u. getNote i (snd (patchNote rt now uuid t i body s)) = Some u
           \<and> (\<forall>k. get_field u k =
                 (if k = ''updatedAt'' then JDate now
                  else if k = ''id'' then get_field e ''id''
                  else (case fmlookup body k of None \<Rightarrow> get_field e k | Some v \<Rightarrow> v)))
           \<and> (\<forall>r. fst (patchNote rt now uuid t i body s) = Json r \<longrightarrow>
                 r = u
                 \<and> (\<exists>act. activities (snd (patchNote rt now uuid t i body s)) =
                             map_set uuid act (activities s)
                          \<and> a_type act = ''note_updated''))))
   \<and> (\<forall>e. getGoal i s = Some e \<longrightarrow>
        (\<exists>u. getGoal i (snd (patchGoal rt now uuid t i body s)) = Some u
           \<and> (\<forall>k. get_field u k =
                 (if k = ''updatedAt'' then JDate now
                  else if k = ''id'' then get_field e ''id''
                  else (case fmlookup body k of None \<Rightarrow> get_field e k | Some v \<Rightarrow> v)))
           \<and> (\<forall>r. fst (patchGoal rt now uuid t i body s) = Json r \<longrightarrow>
                 r = u
                 \<and> (\<exists>act. activities (snd (patchGoal rt now uuid t i body s)) =
                             map_set uuid act (activities s)
                          \<and> (a_type act = ''goal_completed'' \<or> a_type act = ''goal_updated'')))))"
proof (intro conjI allI impI)
  fix m
  show "fst (patchNote rt now uuid t i body s) \<noteq> Error 400 m"
  proof (cases "getNote i s")
    case None
    then show ?thesis by (simp add: patchNote_missing)
  next
    case (Some e)
    then show ?thesis
      by (cases "js_string rt (get_field (merge_patch e body now) ''title'')")
         (simp_all add: patchNote_throws patchNote_logged)
  qed
  show "fst (patchGoal rt now uuid t i body s) \<noteq> Error 400 m"
  proof (cases "getGoal i s")
    case None
    then show ?thesis by (simp add: patchGoal_missing)
  next
    case (Some e)
    then show ?thesis
      by (cases "js_string rt (get_field (merge_patch e body now) ''title'')")
         (simp_all add: patchGoal_throws patchGoal_logged)
  qed
next
  assume "getNote i s = None"
  then show "patchNote rt now uuid t i body s = (Error 404 ''Note not found'', s)"
    by (rule patchNote_missing)
next
  assume "getGoal i s = None"
  then show "patchGoal rt now uuid t i body s = (Error 404 ''Goal not found'', s)"
    by (rule patchGoal_missing)
next
  fix e
  assume e: "getNote i s = Some e"
  show "\<exists>u. getNote i (snd (patchNote rt now uuid t i body s)) = Some u
           \<and> (\<forall>k. get_field u k =
                 (if k = ''updatedAt'' then JDate now
                  else if k = ''id'' then get_field e ''id''
                  else (case fmlookup body k of None \<Rightarrow> get_field e k | Some v \<Rightarrow> v)))
           \<and> (\<forall>r. fst (patchNote rt now uuid t i body s) = Json r \<longrightarrow>
                 r = u
                 \<and> (\<exists>act. activities (snd (patchNote rt now uuid t i body s)) =
                             map_set uuid act (activities s)
                          \<and> a_type act = ''note_updated''))"
  proof (cases "js_string rt (get_field (merge_patch e body now) ''title'')")
    case None
    show ?thesis
      by (rule exI [of _ "merge_patch e body now"])
         (simp add: patchNote_throws [OF e None] getNote_def map_get_set merge_patch_read)
  next
    case (Some title)
    note answer = patchNote_logged [OF e Some]
    have logged: "\<exists>act. activities (snd (patchNote rt now uuid t i body s)) =
                          map_set uuid act (activities s)
                       \<and> a_type act = ''note_updated''"
      by (rule exI [of _ "\<lparr>a_id = uuid, a_type = ''note_updated'',
                           a_description = ''Updated note: '' @ title, a_createdAt = t\<rparr>"])
         (simp add: answer)
    have stored: "getNote i (snd (patchNote rt now uuid t i body s)) = Some (merge_patch e body now)"
      by (simp add: answer getNote_def map_get_set)
    have returned: "fst (patchNote rt now uuid t i body s) = Json (merge_patch e body now)"
      by (simp add: answer)
    from logged stored show ?thesis
      by (intro exI [of _ "merge_patch e body now"]) (simp add: returned merge_patch_read)
  qed
next
  fix e
  assume e: "getGoal i s = Some e"
  show "\<exists>u. getGoal i (snd (patchGoal rt now uuid t i body s)) = Some u
           \<and> (\<forall>k. get_field u k =
                 (if k = ''updatedAt'' then JDate now
                  else if k = ''id'' then get_field e ''id''
                  else (case fmlookup body k of None \<Rightarrow> get_field e k | Some v \<Rightarrow> v)))
           \<and> (\<forall>r. fst (patchGoal rt now uuid t i body s) = Json r \<longrightarrow>
                 r = u
                 \<and> (\<exists>act. activities (snd (patchGoal rt now uuid t i body s)) =
                             map_set uuid act (activities s)
                          \<and> (a_type act = ''goal_completed'' \<or> a_type act = ''goal_updated'')))"
  proof (cases "js_string rt (get_field (merge_patch e body now) ''title'')")
    case None
    show ?thesis
      by (rule exI [of _ "merge_patch e body now"])
         (simp add: patchGoal_throws [OF e None] getGoal_def map_get_set merge_patch_read)
  next
    case (Some title)
    note answer = patchGoal_logged [OF e Some]
    have logged: "\<exists>act. activities (snd (patchGoal rt now uuid t i body s)) =
                          map_set uuid act (activities s)
                       \<and> (a_type act = ''goal_completed'' \<or> a_type act = ''goal_updated'')"
      by (rule exI [of _ "if get_field body ''completed'' = JBool True
                             \<and> \<not> truthy (get_field e ''completed'')
                          then \<lparr>a_id = uuid, a_type = ''goal_completed'',
                                 a_description = ''Completed goal: '' @ title, a_createdAt = t\<rparr>
                          else \<lparr>a_id = uuid, a_type = ''goal_updated'',
                                 a_description = ''Updated goal: '' @ title, a_createdAt = t\<rparr>"])
         (simp add: answer)
    have stored: "getGoal i (snd (patchGoal rt now uuid t i body s)) = Some (merge_patch e body now)"
      by (simp add: answer getGoal_def map_get_set)
    have returned: "fst (patchGoal rt now uuid t i body s) = Json (merge_patch e body now)"
      by (simp add: answer)
    from logged stored show ?thesis
      by (intro exI [of _ "merge_patch e body now"]) (simp add: returned merge_patch_read)
  qed
qed

theorem patch_not_validated_counterexample:
  "\<not> insertNoteSchema bad_note_patch \<and> \<not> partialNote bad_note_patch
   \<and> getNote ''e1'' sample_store = Some sample_entity
   \<and> get_field sample_entity ''content'' = JUndefined
   \<and> fst (patchNote sample_runtime 9 ''a1'' 10 ''e1'' bad_note_patch sample_store)
       = Json (merge_patch sample_entity bad_note_patch 9)
   \<and> getNote ''e1'' (snd (patchNote sample_runtime 9 ''a1'' 10 ''e1'' bad_note_patch sample_store))
       = Some (merge_patch sample_entity bad_note_patch 9)
   \<and> get_field (merge_patch sample_entity bad_note_patch 9) ''content'' = JNum 42
   \<and> activities (snd (patchNote sample_runtime 9 ''a1'' 10 ''e1'' bad_note_patch sample_store))
       = [(''a1'', \<lparr>a_id = ''a1'', a_type = ''note_updated'',
                    a_description = ''Updated note: Learn X'', a_createdAt = 10\<rparr>)]
   \<and> \<not> insertGoalSchema bad_goal_patch \<and> \<not> partialGoal bad_goal_patch
   \<and> fst (patchGoal sample_runtime 9 ''a1'' 10 ''e1'' bad_goal_patch sample_store)
       = Json (merge_patch sample_entity bad_goal_patch 9)
   \<and> get_field (merge_patch sample_entity bad_goal_patch 9) ''progress'' = JStr ''lots''
   \<and> activities (snd (patchGoal sample_runtime 9 ''a1'' 10 ''e1'' bad_goal_patch sample_store))
       = [(''a1'', \<lparr>a_id = ''a1'', a_type = ''goal_updated'',
                    a_description = ''Updated goal: Learn X'', a_createdAt = 10\<rparr>)]"
proof -
  note n = patchNote_logged [OF sample_lookups(3) sample_title(1),
             where rt = sample_runtime and now = 9 and uuid = "''a1''" and t = 10]
  note g = patchGoal_logged [OF sample_lookups(2) sample_title(2),
             where rt = sample_runtime and now = 9 and uuid = "''a1''" and t = 10]
  have schemas: "\<not> insertNoteSchema bad_note_patch" "\<not> partialNote bad_note_patch"
    "\<not> insertGoalSchema bad_goal_patch" "\<not> partialGoal bad_goal_patch"
    by (simp_all add: insertNoteSchema_def partialNote_def insertGoalSchema_def partialGoal_def
          bad_note_patch_def bad_goal_patch_def get_field_def)
  have fields: "get_field sample_entity ''content'' = JUndefined"
    "get_field (merge_patch sample_entity bad_note_patch 9) ''content'' = JNum 42"
    "get_field (merge_patch sample_entity bad_goal_patch 9) ''progress'' = JStr ''lots''"
    "get_field bad_goal_patch ''completed'' = JUndefined"
    by (simp_all add: merge_patch_def get_field_def sample_entity_def bad_note_patch_def
          bad_goal_patch_def)
  have empty: "activities sample_store = []"
    by (simp add: sample_store_def)
  have stored:
    "getNote ''e1'' (snd (patchNote sample_runtime 9 ''a1'' 10 ''e1'' bad_note_patch sample_store))
       = Some (merge_patch sample_entity bad_note_patch 9)"
    by (simp add: n getNote_def map_get_set)
  have logged:
    "activities (snd (patchNote sample_runtime 9 ''a1'' 10 ''e1'' bad_note_patch sample_store))
       = [(''a1'', \<lparr>a_id = ''a1'', a_type = ''note_updated'',
                    a_description = ''Updated note: Learn X'', a_createdAt = 10\<rparr>)]"
    "activities (snd (patchGoal sample_runtime 9 ''a1'' 10 ''e1'' bad_goal_patch sample_store))
       = [(''a1'', \<lparr>a_id = ''a1'', a_type = ''goal_updated'',
                    a_description = ''Updated goal: Learn X'', a_createdAt = 10\<rparr>)]"
    by (simp_all add: n g fields empty map_set_def)
  have answers:
    "fst (patchNote sample_runtime 9 ''a1'' 10 ''e1'' bad_note_patch sample_store)
       = Json (merge_patch sample_entity bad_note_patch 9)"
    "fst (patchGoal sample_runtime 9 ''a1'' 10 ''e1'' bad_goal_patch sample_store)
       = Json (merge_patch sample_entity bad_goal_patch 9)"
    by (simp_all add: n g)
  from schemas fields(1-3) sample_lookups(3) stored logged answers show ?thesis
    by simp
qed

theorem patch_not_validated_witness:
  "getNote ''e1'' sample_store = Some sample_entity
   \<and> getGoal ''e1'' sample_store = Some sample_entity
   \<and> getNote ''zz'' sample_store = None
   \<and> getGoal ''zz'' sample_store = None
   \<and> patchNote sample_runtime 9 ''a1'' 10 ''zz'' bad_note_patch sample_store
       = (Error 404 ''Note not found'', sample_store)
   \<and> patchGoal sample_runtime 9 ''a1'' 10 ''zz'' bad_goal_patch sample_store
       = (Error 404 ''Goal not found'', sample_store)
   \<and> (\<exists>u. getNote ''e1''
              (snd (patchNote sample_runtime 9 ''a1'' 10 ''e1'' bad_note_patch sample_store))
            = Some u
          \<and> get_field u ''content'' = JNum 42
          \<and> get_field u ''title'' = JStr ''Learn X''
          \<and> get_field u ''updatedAt'' = JDate 9
          \<and> fst (patchNote sample_runtime 9 ''a1'' 10 ''e1'' bad_note_patch sample_store) = Json u)
   \<and> (\<exists>u. getGoal ''e1''
              (snd (patchGoal sample_runtime 9 ''a1'' 10 ''e1'' bad_goal_patch sample_store))
            = Some u
          \<and> get_field u ''progress'' = JStr ''lots''
          \<and> fst (patchGoal sample_runtime 9 ''a1'' 10 ''e1'' bad_goal_patch sample_store) = Json u)"
proof -
  have missing: "getNote ''zz'' sample_store = None" "getGoal ''zz'' sample_store = None"
    by (simp_all add: getNote_def getGoal_def map_get_def sample_store_def)
  have answers:
    "fst (patchNote sample_runtime 9 ''a1'' 10 ''e1'' bad_note_patch sample_store)
       = Json (merge_patch sample_entity bad_note_patch 9)"
    "fst (patchGoal sample_runtime 9 ''a1'' 10 ''e1'' bad_goal_patch sample_store)
       = Json (merge_patch sample_entity bad_goal_patch 9)"
    by (simp_all add: patchNote_logged [OF sample_lookups(3) sample_title(1)]
          patchGoal_logged [OF sample_lookups(2) sample_title(2)])
  have reads: "fmlookup bad_note_patch ''content'' = Some (JNum 42)"
    "fmlookup bad_note_patch ''title'' = None"
    "get_field sample_entity ''title'' = JStr ''Learn X''"
    "fmlookup bad_goal_patch ''progress'' = Some (JStr ''lots'')"
    by (simp_all add: bad_note_patch_def bad_goal_patch_def sample_entity_def get_field_def)
  note unknown_note =
    patch_not_validated [of sample_runtime 9 "''a1''" 10 "''zz''" bad_note_patch sample_store,
      THEN conjunct2, THEN conjunct2, THEN conjunct1, rule_format, OF missing(1)]
  note unknown_goal =
    patch_not_validated [of sample_runtime 9 "''a1''" 10 "''zz''" bad_goal_patch sample_store,
      THEN conjunct2, THEN conjunct2, THEN conjunct2, THEN conjunct1, rule_format,
      OF missing(2)]
  note known_note =
    patch_not_validated [of sample_runtime 9 "''a1''" 10 "''e1''" bad_note_patch sample_store,
      THEN conjunct2, THEN conjunct2, THEN conjunct2, THEN conjunct2, THEN conjunct1,
      rule_format, OF sample_lookups(3)]
  note known_goal =
    patch_not_validated [of sample_runtime 9 "''a1''" 10 "''e1''" bad_goal_patch sample_store,
      THEN conjunct2, THEN conjunct2, THEN conjunct2, THEN conjunct2, THEN conjunct2,
      rule_format, OF sample_lookups(2)]
  from known_note obtain u where
    u1: "getNote ''e1''
           (snd (patchNote sample_runtime 9 ''a1'' 10 ''e1'' bad_note_patch sample_store)) = Some u"
    and u2: "\<forall>k. get_field u k =
        (if k = ''updatedAt'' then JDate 9
         else if k = ''id'' then get_field sample_entity ''id''
         else (case fmlookup bad_note_patch k of None \<Rightarrow> get_field sample_entity k
               | Some v \<Rightarrow> v))"
    and u3: "\<forall>r. fst (patchNote sample_runtime 9 ''a1'' 10 ''e1'' bad_note_patch sample_store)
                  = Json r \<longrightarrow>
        r = u
        \<and> (\<exists>act. activities
                    (snd (patchNote sample_runtime 9 ''a1'' 10 ''e1'' bad_note_patch sample_store))
                  = map_set ''a1'' act (activities sample_store)
                \<and> a_type act = ''note_updated'')"
    by (elim exE conjE)
  have uf: "get_field u ''content'' = JNum 42" "get_field u ''title'' = JStr ''Learn X''"
    "get_field u ''updatedAt'' = JDate 9"
    using u2 [rule_format, of "''content''"] u2 [rule_format, of "''title''"]
      u2 [rule_format, of "''updatedAt''"]
    by (simp_all add: reads)
  have ua: "fst (patchNote sample_runtime 9 ''a1'' 10 ''e1'' bad_note_patch sample_store) = Json u"
    using u3 [rule_format, OF answers(1)] answers(1) by simp
  from known_goal obtain w where
    w1: "getGoal ''e1''
           (snd (patchGoal sample_runtime 9 ''a1'' 10 ''e1'' bad_goal_patch sample_store)) = Some w"
    and w2: "\<forall>k. get_field w k =
        (if k = ''updatedAt'' then JDate 9
         else if k = ''id'' then get_field sample_entity ''id''
         else (case fmlookup bad_goal_patch k of None \<Rightarrow> get_field sample_entity k
               | Some v \<Rightarrow> v))"
    and w3: "\<forall>r. fst (patchGoal sample_runtime 9 ''a1'' 10 ''e1'' bad_goal_patch sample_store)
                  = Json r \<longrightarrow>
        r = w
        \<and> (\<exists>act. activities
                    (snd (patchGoal sample_runtime 9 ''a1'' 10 ''e1'' bad_goal_patch sample_store))
                  = map_set ''a1'' act (activities sample_store)
                \<and> (a_type act = ''goal_completed'' \<or> a_type act = ''goal_updated''))"
    by (elim exE conjE)
  have wf: "get_field w ''progress'' = JStr ''lots''"
    using w2 [rule_format, of "''progress''"] by (simp add: reads)
  have wa: "fst (patchGoal sample_runtime 9 ''a1'' 10 ''e1'' bad_goal_patch sample_store) = Json w"
    using w3 [rule_format, OF answers(2)] answers(2) by simp
  have note_part:
    "\<exists>u. getNote ''e1''
              (snd (patchNote sample_runtime 9 ''a1'' 10 ''e1'' bad_note_patch sample_store))
            = Some u
          \<and> get_field u ''content'' = JNum 42
          \<and> get_field u ''title'' = JStr ''Learn X''
          \<and> get_field u ''updatedAt'' = JDate 9
          \<and> fst (patchNote sample_runtime 9 ''a1'' 10 ''e1'' bad_note_patch sample_store) = Json u"
    by (intro exI [of _ u] conjI u1 uf ua)
  have goal_part:
    "\<exists>u. getGoal ''e1''
              (snd (patchGoal sample_runtime 9 ''a1'' 10 ''e1'' bad_goal_patch sample_store))
            = Some u
          \<and> get_field u ''progress'' = JStr ''lots''
          \<and> fst (patchGoal sample_runtime 9 ''a1'' 10 ''e1'' bad_goal_patch sample_store) = Json u"
    by (intro exI [of _ w] conjI w1 wf wa)
  show ?thesis
    by (intro conjI sample_lookups(3) sample_lookups(2) missing unknown_note unknown_goal
          note_part goal_part)
qed

text \<open>
  Claim C5, as amended. For every goal update on a stored goal that is answered with
  success, the activity id being new: the answer is the updated goal, which is stored,
  and exactly one activity is appended. Its type is goal_completed when the patch has
  \<open>completed\<close> equal to \<open>true\<close> and the stored \<open>completed\<close> was falsy (\<open>false\<close>,
  or a falsy value of another type such as \<open>null\<close>), and goal_updated in every other
  case.

  Success is a condition: a patch whose merged title cannot be converted to a string
  is answered 500 after the goal has been stored, and no activity is written.
\<close>

theorem goal_update_activity:
  assumes stored: "getGoal i s = Some g"
    and fresh: "uuid \<notin> map_keys (activities s)"
    and success: "fst (patchGoal rt now uuid t i body s) = Json goal"
  shows "\<exists>act.
           snd (patchGoal rt now uuid t i body s) =
             s\<lparr>goals := map_set i goal (goals s),
               activities := activities s @ [(uuid, act)]\<rparr>
           \<and> getGoal i (snd (patchGoal rt now uuid t i body s)) = Some goal
           \<and> a_type act =
               (if get_field body ''completed'' = JBool True
                   \<and> \<not> truthy (get_field g ''completed'')
                then ''goal_completed'' else ''goal_updated'')"
proof (cases "js_string rt (get_field (merge_patch g body now) ''title'')")
  case None
  with success stored show ?thesis
    by (simp add: patchGoal_throws)
next
  case (Some title)
  note answer = patchGoal_logged [OF stored Some]
  from success have goal: "goal = merge_patch g body now"
    by (simp add: answer)
  show ?thesis
    by (rule exI [of _ "if get_field body ''completed'' = JBool True
                           \<and> \<not> truthy (get_field g ''completed'')
                        then \<lparr>a_id = uuid, a_type = ''goal_completed'',
                               a_description = ''Completed goal: '' @ title, a_createdAt = t\<rparr>
                        else \<lparr>a_id = uuid, a_type = ''goal_updated'',
                               a_description = ''Updated goal: '' @ title, a_createdAt = t\<rparr>"])
       (simp add: answer goal map_set_fresh [OF fresh] getGoal_def map_get_set)
qed

theorem goal_update_activity_counterexample:
  "getGoal ''e1'' sample_store = Some sample_entity
   \<and> get_field sample_entity ''completed'' = JBool False
   \<and> get_field unprintable_title_patch ''completed'' = JBool True
   \<and> get_field unprintable_title_patch ''title'' = JObj (fmupd ''toString'' (JNum 1) fmempty)
   \<and> fst (patchGoal sample_runtime 9 ''a1'' 10 ''e1'' unprintable_title_patch sample_store)
       = Error 500 ''Failed to update goal''
   \<and> activities (snd (patchGoal sample_runtime 9 ''a1'' 10 ''e1'' unprintable_title_patch
                        sample_store)) = []
   \<and> map_option (\<lambda>g. get_field g ''completed'')
         (getGoal ''e1'' (snd (patchGoal sample_runtime 9 ''a1'' 10 ''e1'' unprintable_title_patch
                                 sample_store)))
       = Some (JBool True)
   \<and> getGoal ''e1'' null_completed_store = Some null_completed_goal
   \<and> get_field null_completed_goal ''completed'' = JNull
   \<and> get_field completing_only_patch ''completed'' = JBool True
   \<and> map (a_type \<circ> snd)
         (activities (snd (patchGoal sample_runtime 9 ''a1'' 10 ''e1'' completing_only_patch
                             null_completed_store)))
       = [''goal_completed'']"
proof -
  have stored: "getGoal ''e1'' null_completed_store = Some null_completed_goal"
    by (simp add: getGoal_def map_get_def null_completed_store_def)
  note thrown = patchGoal_throws [OF sample_lookups(2) sample_title(5),
                  where rt = sample_runtime and now = 9 and uuid = "''a1''" and t = 10]
  note logged = patchGoal_logged [OF stored sample_title(4),
                  where rt = sample_runtime and now = 9 and uuid = "''a1''" and t = 10]
  have fields: "get_field sample_entity ''completed'' = JBool False"
    "get_field unprintable_title_patch ''completed'' = JBool True"
    "get_field unprintable_title_patch ''title'' = JObj (fmupd ''toString'' (JNum 1) fmempty)"
    "get_field null_completed_goal ''completed'' = JNull"
    "get_field completing_only_patch ''completed'' = JBool True"
    "get_field (merge_patch sample_entity unprintable_title_patch 9) ''completed'' = JBool True"
    by (simp_all add: sample_entity_def unprintable_title_patch_def null_completed_goal_def
          completing_only_patch_def merge_patch_def get_field_def)
  have empty: "activities sample_store = []" "activities null_completed_store = []"
    by (simp_all add: sample_store_def null_completed_store_def)
  have a: "fst (patchGoal sample_runtime 9 ''a1'' 10 ''e1'' unprintable_title_patch sample_store)
             = Error 500 ''Failed to update goal''"
    by (simp add: thrown)
  have b: "activities (snd (patchGoal sample_runtime 9 ''a1'' 10 ''e1'' unprintable_title_patch
                        sample_store)) = []"
    by (simp add: thrown empty)
  have c: "map_option (\<lambda>g. get_field g ''completed'')
         (getGoal ''e1'' (snd (patchGoal sample_runtime 9 ''a1'' 10 ''e1'' unprintable_title_patch
                                 sample_store)))
       = Some (JBool True)"
    by (simp add: thrown getGoal_def map_get_set fields)
  have d: "map (a_type \<circ> snd)
         (activities (snd (patchGoal sample_runtime 9 ''a1'' 10 ''e1'' completing_only_patch
                             null_completed_store)))
       = [''goal_completed'']"
    by (simp add: logged fields empty map_set_def)
  show ?thesis
    by (intro conjI sample_lookups(2) fields(1-5) a b c d stored)
qed

theorem goal_update_activity_witness:
  "getGoal ''e1'' sample_store = Some sample_entity
   \<and> ''a1'' \<notin> map_keys (activities sample_store)
   \<and> get_field sample_entity ''completed'' = JBool False
   \<and> get_field completing_patch ''completed'' = JBool True
   \<and> fst (patchGoal sample_runtime 9 ''a1'' 10 ''e1'' completing_patch sample_store)
       = Json (merge_patch sample_entity completing_patch 9)
   \<and> (\<exists>act.
         snd (patchGoal sample_runtime 9 ''a1'' 10 ''e1'' completing_patch sample_store) =
           sample_store\<lparr>goals := map_set ''e1'' (merge_patch sample_entity completing_patch 9)
                                   (goals sample_store),
             activities := activities sample_store @ [(''a1'', act)]\<rparr>
         \<and> a_type act = ''goal_completed'')
   \<and> fst (patchGoal sample_runtime 9 ''a1'' 10 ''e1'' bad_goal_patch sample_store)
       = Json (merge_patch sample_entity bad_goal_patch 9)
   \<and> (\<exists>act.
         snd (patchGoal sample_runtime 9 ''a1'' 10 ''e1'' bad_goal_patch sample_store) =
           sample_store\<lparr>goals := map_set ''e1'' (merge_patch sample_entity bad_goal_patch 9)
                                   (goals sample_store),
             activities := activities sample_store @ [(''a1'', act)]\<rparr>
         \<and> a_type act = ''goal_updated'')"
proof -
  have h2: "''a1'' \<notin> map_keys (activities sample_store)"
    by (simp add: sample_store_def map_keys_def)
  have fields: "get_field sample_entity ''completed'' = JBool False"
    "get_field completing_patch ''completed'' = JBool True"
    "get_field bad_goal_patch ''completed'' = JUndefined"
    by (simp_all add: sample_entity_def completing_patch_def bad_goal_patch_def get_field_def)
  have s1: "fst (patchGoal sample_runtime 9 ''a1'' 10 ''e1'' completing_patch sample_store)
              = Json (merge_patch sample_entity completing_patch 9)"
    by (simp add: patchGoal_logged [OF sample_lookups(2) sample_title(3)])
  have s2: "fst (patchGoal sample_runtime 9 ''a1'' 10 ''e1'' bad_goal_patch sample_store)
              = Json (merge_patch sample_entity bad_goal_patch 9)"
    by (simp add: patchGoal_logged [OF sample_lookups(2) sample_title(2)])
  from goal_update_activity [OF sample_lookups(2) h2 s1] obtain act1 where
    a1: "snd (patchGoal sample_runtime 9 ''a1'' 10 ''e1'' completing_patch sample_store) =
           sample_store\<lparr>goals := map_set ''e1'' (merge_patch sample_entity completing_patch 9)
                                   (goals sample_store),
             activities := activities sample_store @ [(''a1'', act1)]\<rparr>"
    and t1: "a_type act1 =
               (if get_field completing_patch ''completed'' = JBool True
                   \<and> \<not> truthy (get_field sample_entity ''completed'')
                then ''goal_completed'' else ''goal_updated'')"
    by (elim exE conjE)
  from goal_update_activity [OF sample_lookups(2) h2 s2] obtain act2 where
    a2: "snd (patchGoal sample_runtime 9 ''a1'' 10 ''e1'' bad_goal_patch sample_store) =
           sample_store\<lparr>goals := map_set ''e1'' (merge_patch sample_entity bad_goal_patch 9)
                                   (goals sample_store),
             activities := activities sample_store @ [(''a1'', act2)]\<rparr>"
    and t2: "a_type act2 =
               (if get_field bad_goal_patch ''completed'' = JBool True
                   \<and> \<not> truthy (get_field sample_entity ''completed'')
                then ''goal_completed'' else ''goal_updated'')"
    by (elim exE conjE)
  from t1 have t1': "a_type act1 = ''goal_completed''" by (simp add: fields)
  from t2 have t2': "a_type act2 = ''goal_updated''" by (simp add: fields)
  have p1: "\<exists>act.
         snd (patchGoal sample_runtime 9 ''a1'' 10 ''e1'' completing_patch sample_store) =
           sample_store\<lparr>goals := map_set ''e1'' (merge_patch sample_entity completing_patch 9)
                                   (goals sample_store),
             activities := activities sample_store @ [(''a1'', act)]\<rparr>
         \<and> a_type act = ''goal_completed''"
    by (intro exI [of _ act1] conjI a1 t1')
  have p2: "\<exists>act.
         snd (patchGoal sample_runtime 9 ''a1'' 10 ''e1'' bad_goal_patch sample_store) =
           sample_store\<lparr>goals := map_set ''e1'' (merge_patch sample_entity bad_goal_patch 9)
                                   (goals sample_store),
             activities := activities sample_store @ [(''a1'', act)]\<rparr>
         \<and> a_type act = ''goal_updated''"
    by (intro exI [of _ act2] conjI a2 t2')
  show ?thesis
    by (intro conjI sample_lookups(2) h2 fields(1,2) s1 p1 s2 p2)
qed

end
